theory Spec2Isabelle
  imports Complex_Main "HOL-Library.Sublist" "HOL-Library.Log_Nat"
begin

section \<open>Request payloads and the Joi contracts\<close>

text \<open>
  A request body is the object the JSON body parser produced: its keys in order, each
  once, with its value. A number is the value of a JavaScript Number, a finite double, as
  the rational it denotes. Arrays and nested objects only matter as "neither a string nor
  a number" and are one constructor.
\<close>

datatype jvalue = JNull | JBool bool | JNum rat | JStr string | JOther

text \<open>
  The sum of two Numbers is the double nearest to the exact sum, of two equally near the
  one with the even significand. \<open>exponent q\<close> is the \<open>e\<close> with
  \<open>2^e \<le> |q| < 2^(e+1)\<close>; a double has 53 significant bits, so the doubles around
  \<open>q\<close> are the multiples of \<open>2^(e-52)\<close>. The range of the exponent is not
  bounded here: the one sum of the handlers adds a validated quantity, an integer between
  1 and \<open>2^53\<close>, to a stored double, and that sum neither overflows nor is subnormal.
\<close>

definition exponent :: "rat \<Rightarrow> int" where
  "exponent q =
     (let (n, d) = quotient_of \<bar>q\<bar>; e = bitlen n - bitlen d
      in if 2 powi e \<le> \<bar>q\<bar> then e else e - 1)"

definition roundHalfEven :: "rat \<Rightarrow> int" where
  "roundHalfEven x =
     (if x - of_int \<lfloor>x\<rfloor> < 1 / 2 then \<lfloor>x\<rfloor>
      else if x - of_int \<lfloor>x\<rfloor> > 1 / 2 then \<lfloor>x\<rfloor> + 1
      else if even \<lfloor>x\<rfloor> then \<lfloor>x\<rfloor> else \<lfloor>x\<rfloor> + 1)"

definition toDouble :: "rat \<Rightarrow> rat" where
  "toDouble q =
     (if q = 0 then 0
      else of_int (roundHalfEven (q / 2 powi (exponent q - 52))) * 2 powi (exponent q - 52))"

definition js_add :: "rat \<Rightarrow> rat \<Rightarrow> rat" where
  "js_add a b = toDouble (a + b)"

type_synonym body = "(string \<times> jvalue) list"

definition field :: "body \<Rightarrow> string \<Rightarrow> jvalue option" where
  "field b k = map_of b k"

text \<open>Joi's default messages print the key between double quotes.\<close>

definition quoted :: "string \<Rightarrow> string" where
  "quoted k = CHR 0x22 # k @ [CHR 0x22]"

text \<open>
  \<open>Joi.string()\<close>: the value must be a string, and the empty string is not allowed.
  \<open>.required()\<close> turns an absent key into the schema's \<open>any.required\<close> message; without it
  an absent key is accepted.
\<close>

definition joi_string :: "string \<Rightarrow> jvalue \<Rightarrow> string list + string" where
  "joi_string label v =
     (case v of
        JStr s \<Rightarrow> if s = [] then Inl [quoted label @ '' is not allowed to be empty'']
                  else Inr s
      | _ \<Rightarrow> Inl [quoted label @ '' must be a string''])"

definition required :: "string \<Rightarrow> (jvalue \<Rightarrow> string list + 'a) \<Rightarrow> jvalue option
    \<Rightarrow> string list + 'a" where
  "required msg rule v = (case v of None \<Rightarrow> Inl [msg] | Some x \<Rightarrow> rule x)"

definition optional :: "(jvalue \<Rightarrow> string list + 'a) \<Rightarrow> jvalue option
    \<Rightarrow> string list + 'a option" where
  "optional rule v =
     (case v of
        None \<Rightarrow> Inr None
      | Some x \<Rightarrow> (case rule x of Inl es \<Rightarrow> Inl es | Inr y \<Rightarrow> Inr (Some y)))"

text \<open>
  \<open>Joi.number()\<close> accepts a number, and a string that Joi converts to one; which strings
  convert, and to what, is Joi's own parser, the parameter \<open>coerce\<close>. A number outside the
  safe integer range is refused before any rule runs; then the rules of the schema run,
  all of them (the handlers validate with \<open>abortEarly: false\<close>).
\<close>

definition toNumber :: "(string \<Rightarrow> rat option) \<Rightarrow> jvalue \<Rightarrow> rat option" where
  "toNumber coerce v = (case v of JNum q \<Rightarrow> Some q | JStr s \<Rightarrow> coerce s | _ \<Rightarrow> None)"

definition unsafe :: "rat \<Rightarrow> bool" where
  "unsafe q = (\<bar>q\<bar> > 9007199254740991)"

definition joi_number :: "(string \<Rightarrow> rat option) \<Rightarrow> string \<Rightarrow> string \<Rightarrow> (rat \<Rightarrow> string list)
    \<Rightarrow> jvalue \<Rightarrow> string list + rat" where
  "joi_number coerce label base_msg rules v =
     (case toNumber coerce v of
        None \<Rightarrow> Inl [base_msg]
      | Some q \<Rightarrow>
          if unsafe q then Inl [quoted label @ '' must be a safe number'']
          else if rules q = [] then Inr q else Inl (rules q))"

definition is_integer :: "rat \<Rightarrow> bool" where
  "is_integer q = (rat_of_int \<lfloor>q\<rfloor> = q)"

definition integer_rule :: "string \<Rightarrow> rat \<Rightarrow> string list" where
  "integer_rule msg q = (if is_integer q then [] else [msg])"

definition positive_rule :: "string \<Rightarrow> rat \<Rightarrow> string list" where
  "positive_rule msg q = (if q > 0 then [] else [msg])"

text \<open>A key the schema does not name is refused, after the schema's own keys.\<close>

definition unknownKeys :: "string list \<Rightarrow> body \<Rightarrow> string list" where
  "unknownKeys known b =
     map (\<lambda>k. quoted k @ '' is not allowed'') (filter (\<lambda>k. k \<notin> set known) (map fst b))"

definition errorsOf :: "string list + 'a \<Rightarrow> string list" where
  "errorsOf r = (case r of Inl es \<Rightarrow> es | Inr _ \<Rightarrow> [])"

subsection \<open>cartItemSchema\<close>

definition cartItem_product :: "body \<Rightarrow> string list + string" where
  "cartItem_product b =
     required ''Product ID is required'' (joi_string ''product'') (field b ''product'')"

definition cartItem_quantity :: "(string \<Rightarrow> rat option) \<Rightarrow> body \<Rightarrow> string list + rat" where
  "cartItem_quantity coerce b =
     required ''Quantity is required''
       (joi_number coerce ''quantity'' ''Quantity must be a number''
          (\<lambda>q. integer_rule ''Quantity must be an integer'' q
              @ positive_rule ''Quantity must be positive'' q))
       (field b ''quantity'')"

text \<open>
  \<open>cartItemSchema.validate(req.body, {abortEarly: false})\<close>: either the list of all messages
  (\<open>error.details.map((err) => err.message)\<close>), in the order of the schema's keys, or
  the validated \<open>{product, quantity}\<close>.
\<close>

definition cartItemSchema_errors :: "(string \<Rightarrow> rat option) \<Rightarrow> body \<Rightarrow> string list" where
  "cartItemSchema_errors coerce b =
       errorsOf (cartItem_product b)
     @ errorsOf (cartItem_quantity coerce b)
     @ unknownKeys [''product'', ''quantity''] b"

definition cartItemSchema_validate :: "(string \<Rightarrow> rat option) \<Rightarrow> body
    \<Rightarrow> string list + (string \<times> rat)" where
  "cartItemSchema_validate coerce b =
     (case (cartItem_product b, cartItem_quantity coerce b) of
        (Inr p, Inr q) \<Rightarrow>
          if cartItemSchema_errors coerce b = [] then Inr (p, q)
          else Inl (cartItemSchema_errors coerce b)
      | _ \<Rightarrow> Inl (cartItemSchema_errors coerce b))"

section \<open>The document store\<close>

text \<open>
  \<open>'i\<close> is the type of ObjectIds. A cart item holds a product reference and a quantity;
  there is one cart document per user, so the Cart collection is a map from the user to
  the item sequence of that user's cart. The Product collection is the sequence of its
  documents. \<open>cast\<close>, a parameter of the handlers, is the driver's conversion of a string
  to an ObjectId (\<open>None\<close>: the string is no ObjectId); \<open>oid.equals(s)\<close> on a string holds
  when the string denotes that ObjectId.

  A cart document in a response shows a reference either as the stored ObjectId or, after
  \<open>populate\<close>, as the document it names, \<open>null\<close> when there is none; \<open>'w\<close> and \<open>'p\<close>
  are how a cart shows its user and the products of its items.
\<close>

record 'p cartItem =
  product :: 'p
  quantity :: rat

record ('w, 'p) cart =
  user :: 'w
  items :: "'p cartItem list"

datatype ('i, 'doc) ref = Id 'i | Populated "'doc option"

record 'i productDoc =
  pid :: 'i
  name :: string
  description :: string
  price :: rat
  category :: 'i
  stock :: rat
  image_url :: "string option"
  brand :: "string option"

record 'i db =
  cartDocs :: "'i \<Rightarrow> 'i cartItem list option"
  productDocs :: "'i productDoc list"

datatype exn = TypeError | ValidationError | CastError | MongoServerError

text \<open>
  What a handler answers: \<open>res.json\<close> (200), \<open>res.status(201).json\<close>, the 400 with the
  list of messages, the 404 and the 500 with one message, or an exception that
  \<open>asyncHandler\<close> hands to the error middleware.
\<close>

datatype 'a response =
    Ok 'a
  | Created 'a
  | BadRequest "string list"
  | NotFound string
  | InternalError string
  | Threw exn

definition equalsId :: "(string \<Rightarrow> 'i option) \<Rightarrow> 'i \<Rightarrow> string \<Rightarrow> bool" where
  "equalsId cast i s = (cast s = Some i)"

definition findById :: "'i db \<Rightarrow> 'i \<Rightarrow> 'i productDoc option" where
  "findById d i = find (\<lambda>p. pid p = i) (productDocs d)"

text \<open>
  The populate of \<open>addToCart\<close>, path \<open>items.product\<close> and in it \<open>category\<close>: each item
  gets, beside its stored reference, the product document it names with the category
  document of that product, and \<open>null\<close> when the Product collection has no such document.
  \<open>categories\<close> is the Category collection and \<open>users\<close> the User collection; their
  models are not part of these sources, the handlers only read them, and their documents
  are of any type.
\<close>

definition populateItems :: "('i \<Rightarrow> 'c option) \<Rightarrow> 'i db \<Rightarrow> 'i cartItem list
    \<Rightarrow> ('i cartItem \<times> ('i productDoc \<times> 'c option) option) list" where
  "populateItems categories d its =
     map (\<lambda>it. (it, map_option (\<lambda>doc. (doc, categories (category doc)))
                         (findById d (product it)))) its"

text \<open>How the populated items appear in the response.\<close>

definition populatedView :: "('i cartItem \<times> 'doc option) list \<Rightarrow> ('i, 'doc) ref cartItem list" where
  "populatedView pop = map (\<lambda>x. \<lparr>product = Populated (snd x), quantity = quantity (fst x)\<rparr>) pop"

text \<open>
  \<open>Array.prototype.find\<close> with a callback that may throw: the position of the first
  element the callback accepts, \<open>None\<close> for \<open>undefined\<close>, or the exception of the first
  call that throws.
\<close>

fun js_find :: "('a \<Rightarrow> exn + bool) \<Rightarrow> 'a list \<Rightarrow> exn + nat option" where
  "js_find f [] = Inr None"
| "js_find f (x # xs) =
     (case f x of
        Inl e \<Rightarrow> Inl e
      | Inr True \<Rightarrow> Inr (Some 0)
      | Inr False \<Rightarrow>
          (case js_find f xs of
             Inl e \<Rightarrow> Inl e
           | Inr None \<Rightarrow> Inr None
           | Inr (Some k) \<Rightarrow> Inr (Some (Suc k))))"

text \<open>
  \<open>item.product.equals(product)\<close> on a populated item: a TypeError when the reference
  resolved to \<open>null\<close>, otherwise the comparison of the document's id with the string.
\<close>

definition populatedEquals :: "(string \<Rightarrow> 'i option) \<Rightarrow> string
    \<Rightarrow> 'i cartItem \<times> ('i productDoc \<times> 'c option) option \<Rightarrow> exn + bool" where
  "populatedEquals cast s x =
     (case snd x of
        None \<Rightarrow> Inl TypeError
      | Some doc \<Rightarrow> Inr (equalsId cast (pid (fst doc)) s))"

definition itemEquals :: "(string \<Rightarrow> 'i option) \<Rightarrow> string \<Rightarrow> 'i cartItem \<Rightarrow> exn + bool" where
  "itemEquals cast s it = Inr (equalsId cast (product it) s)"

definition save :: "'i db \<Rightarrow> 'i \<Rightarrow> 'i cartItem list \<Rightarrow> 'i db" where
  "save d u its = d\<lparr>cartDocs := (cartDocs d)(u \<mapsto> its)\<rparr>"

section \<open>The cart handlers\<close>

text \<open>
  Each handler takes the store, the authenticated user (\<open>req.user._id\<close>) and the request,
  and returns the store afterwards with the response. A new item's product string is cast
  to an ObjectId when the document is written; a string that is none fails the write. The
  cart model and its validators are not part of these sources: apart from that cast, a
  write of a cart succeeds.
\<close>

text \<open>
  \<open>addToCart\<close> reads the cart populated (the products of the items, and the user) and
  answers with that document after its change: a merged quantity is the sum as
  JavaScript computes it, a pushed item shows the ObjectId of its product, and a cart that
  \<open>Cart.create\<close> made shows ObjectIds only.
\<close>

definition addToCart :: "(string \<Rightarrow> 'i option) \<Rightarrow> (string \<Rightarrow> rat option) \<Rightarrow> ('i \<Rightarrow> 'u option)
    \<Rightarrow> ('i \<Rightarrow> 'c option) \<Rightarrow> 'i db \<Rightarrow> 'i \<Rightarrow> body
    \<Rightarrow> 'i db \<times> (('i, 'u) ref, ('i, 'i productDoc \<times> 'c option) ref) cart response" where
  "addToCart cast coerce users categories d u b =
     (case cartItemSchema_validate coerce b of
        Inl errors \<Rightarrow> (d, BadRequest errors)
      | Inr (p, q) \<Rightarrow>
          (case cartDocs d u of
             None \<Rightarrow>
               (case cast p of
                  None \<Rightarrow> (d, Threw ValidationError)
                | Some i \<Rightarrow>
                    (save d u [\<lparr>product = i, quantity = q\<rparr>],
                     Ok \<lparr>user = Id u, items = [\<lparr>product = Id i, quantity = q\<rparr>]\<rparr>))
           | Some its \<Rightarrow>
               (case js_find (populatedEquals cast p) (populateItems categories d its) of
                  Inl e \<Rightarrow> (d, Threw e)
                | Inr (Some k) \<Rightarrow>
                    (let its' = its[k := (its ! k)\<lparr>quantity := js_add (quantity (its ! k)) q\<rparr>]
                     in (save d u its',
                         Ok \<lparr>user = Populated (users u),
                             items = populatedView (populateItems categories d its')\<rparr>))
                | Inr None \<Rightarrow>
                    (case cast p of
                       None \<Rightarrow> (d, Threw ValidationError)
                     | Some i \<Rightarrow>
                         (save d u (its @ [\<lparr>product = i, quantity = q\<rparr>]),
                          Ok \<lparr>user = Populated (users u),
                              items = populatedView (populateItems categories d its)
                                        @ [\<lparr>product = Id i, quantity = q\<rparr>]\<rparr>)))))"

definition updateCart :: "(string \<Rightarrow> 'i option) \<Rightarrow> (string \<Rightarrow> rat option) \<Rightarrow> 'i db \<Rightarrow> 'i \<Rightarrow> body
    \<Rightarrow> 'i db \<times> ('i, 'i) cart response" where
  "updateCart cast coerce d u b =
     (case cartItemSchema_validate coerce b of
        Inl errors \<Rightarrow> (d, BadRequest errors)
      | Inr (p, q) \<Rightarrow>
          (case cartDocs d u of
             None \<Rightarrow> (d, NotFound ''Cart not found'')
           | Some its \<Rightarrow>
               (case js_find (itemEquals cast p) its of
                  Inl e \<Rightarrow> (d, Threw e)
                | Inr None \<Rightarrow> (d, NotFound ''Item not found in cart'')
                | Inr (Some k) \<Rightarrow>
                    (let its' = its[k := (its ! k)\<lparr>quantity := q\<rparr>]
                     in (save d u its', Ok \<lparr>user = u, items = its'\<rparr>)))))"

definition removeFromCart :: "(string \<Rightarrow> 'i option) \<Rightarrow> 'i db \<Rightarrow> 'i \<Rightarrow> string
    \<Rightarrow> 'i db \<times> ('i, 'i) cart response" where
  "removeFromCart cast d u productId =
     (case cartDocs d u of
        None \<Rightarrow> (d, NotFound ''Cart not found'')
      | Some its \<Rightarrow>
          (let its' = filter (\<lambda>item. \<not> equalsId cast (product item) productId) its
           in (save d u its', Ok \<lparr>user = u, items = its'\<rparr>)))"

text \<open>
  \<open>updateCartForUser\<close>: the user id is a route parameter and the items come from the body
  as they are. The handler makes one call that writes, \<open>findOneAndUpdate\<close> with \<open>upsert\<close>
  and \<open>new\<close>: it casts the ids, replaces the items of the user's cart or creates the cart
  with them, and gives the cart after the write, which \<open>populate("items.product")\<close> then
  fills with the product documents. A failed cast is caught by the handler's own
  \<open>try/catch\<close>, and nothing is written. The result holds, between the store and the
  response, the writes the handler made on the Cart collection, in order.
\<close>

fun castItems :: "(string \<Rightarrow> 'i option) \<Rightarrow> (string \<times> rat) list \<Rightarrow> 'i cartItem list option" where
  "castItems cast [] = Some []"
| "castItems cast ((p, q) # rest) =
     (case cast p of
        None \<Rightarrow> None
      | Some i \<Rightarrow>
          (case castItems cast rest of
             None \<Rightarrow> None
           | Some its \<Rightarrow> Some (\<lparr>product = i, quantity = q\<rparr> # its)))"

datatype 'i cartWrite = FindOneAndUpdateUpsert 'i "'i cartItem list"

fun perform :: "'i db \<Rightarrow> 'i cartWrite \<Rightarrow> 'i db" where
  "perform d (FindOneAndUpdateUpsert u its) = save d u its"

definition updateCartForUser :: "(string \<Rightarrow> 'i option) \<Rightarrow> 'i db \<Rightarrow> string \<Rightarrow> (string \<times> rat) list
    \<Rightarrow> 'i db \<times> 'i cartWrite list \<times> ('i, 'i productDoc option) cart response" where
  "updateCartForUser cast d userId its =
     (case cast userId of
        None \<Rightarrow> (d, [], InternalError ''Internal Server Error'')
      | Some u \<Rightarrow>
          (case castItems cast its of
             None \<Rightarrow> (d, [], InternalError ''Internal Server Error'')
           | Some its' \<Rightarrow>
               (let d' = perform d (FindOneAndUpdateUpsert u its')
                in (d', [FindOneAndUpdateUpsert u its'],
                    Ok \<lparr>user = u,
                        items = map (\<lambda>it. \<lparr>product = findById d' (product it),
                                             quantity = quantity it\<rparr>) its'\<rparr>))))"

text \<open>
  The module assigns \<open>module.exports\<close> twice; the second assignment replaces the object of
  the first, so the names a router can import are those of the last one.
\<close>

definition module_exports :: "string list" where
  "module_exports =
     last [[''updateCartForUser''],
           [''getCart'', ''addToCart'', ''updateCart'', ''removeFromCart'']]"

section \<open>The product handlers\<close>

subsection \<open>productSchema\<close>

record productValue =
  v_name :: string
  v_description :: string
  v_price :: rat
  v_category :: string
  v_stock :: rat
  v_image :: "string option"
  v_brand :: "string option"

definition productKeys :: "string list" where
  "productKeys =
     [''name'', ''description'', ''price'', ''category'', ''stock'', ''image'', ''brand'']"

definition product_string :: "string \<Rightarrow> string \<Rightarrow> body \<Rightarrow> string list + string" where
  "product_string key msg b = required msg (joi_string key) (field b key)"

definition product_number :: "(string \<Rightarrow> rat option) \<Rightarrow> string \<Rightarrow> string \<Rightarrow> body
    \<Rightarrow> string list + rat" where
  "product_number coerce key msg b =
     required msg (joi_number coerce key (quoted key @ '' must be a number'') (\<lambda>q. []))
       (field b key)"

definition product_optional :: "string \<Rightarrow> body \<Rightarrow> string list + string option" where
  "product_optional key b = optional (joi_string key) (field b key)"

definition productSchema_errors :: "(string \<Rightarrow> rat option) \<Rightarrow> body \<Rightarrow> string list" where
  "productSchema_errors coerce b =
       errorsOf (product_string ''name'' ''Name is required'' b)
     @ errorsOf (product_string ''description'' ''Description is required'' b)
     @ errorsOf (product_number coerce ''price'' ''Price is required'' b)
     @ errorsOf (product_string ''category'' ''Category is required'' b)
     @ errorsOf (product_number coerce ''stock'' ''Stock is required'' b)
     @ errorsOf (product_optional ''image'' b)
     @ errorsOf (product_optional ''brand'' b)
     @ unknownKeys productKeys b"

text \<open>
  \<open>productSchema.validate(req.body, {abortEarly: false})\<close>: all messages, in the order of
  the schema's keys, or the validated value.
\<close>

definition productSchema_validate :: "(string \<Rightarrow> rat option) \<Rightarrow> body
    \<Rightarrow> string list + productValue" where
  "productSchema_validate coerce b =
     (case (product_string ''name'' ''Name is required'' b,
            product_string ''description'' ''Description is required'' b,
            product_number coerce ''price'' ''Price is required'' b,
            product_string ''category'' ''Category is required'' b,
            product_number coerce ''stock'' ''Stock is required'' b,
            product_optional ''image'' b,
            product_optional ''brand'' b) of
        (Inr n, Inr ds, Inr pr, Inr c, Inr st, Inr im, Inr br) \<Rightarrow>
          if productSchema_errors coerce b = []
          then Inr \<lparr>v_name = n, v_description = ds, v_price = pr, v_category = c,
                    v_stock = st, v_image = im, v_brand = br\<rparr>
          else Inl (productSchema_errors coerce b)
      | _ \<Rightarrow> Inl (productSchema_errors coerce b))"

subsection \<open>createProduct, updateProduct, deleteProduct\<close>

text \<open>
  \<open>Product.create\<close> casts the category string to an ObjectId and stores the document under
  the id the driver generated for it, the parameter \<open>fresh\<close>; the collection refuses an id
  it already holds. The handler then reads the document back by that id. The validators of
  the product model itself are not part of these sources and are left out.
\<close>

definition createProduct :: "(string \<Rightarrow> 'i option) \<Rightarrow> (string \<Rightarrow> rat option) \<Rightarrow> 'i db \<Rightarrow> 'i \<Rightarrow> body
    \<Rightarrow> 'i db \<times> 'i productDoc option response" where
  "createProduct cast coerce d fresh b =
     (case productSchema_validate coerce b of
        Inl error \<Rightarrow> (d, BadRequest error)
      | Inr v \<Rightarrow>
          (case cast (v_category v) of
             None \<Rightarrow> (d, Threw ValidationError)
           | Some c \<Rightarrow>
               if findById d fresh \<noteq> None then (d, Threw MongoServerError)
               else
                 (let doc = \<lparr>pid = fresh, name = v_name v, description = v_description v,
                                 price = v_price v, category = c, stock = v_stock v,
                                 image_url = v_image v, brand = v_brand v\<rparr>;
                      d' = d\<lparr>productDocs := productDocs d @ [doc]\<rparr>
                  in (d', Created (findById d' fresh)))))"

fun updateFirst :: "('a \<Rightarrow> bool) \<Rightarrow> ('a \<Rightarrow> 'a) \<Rightarrow> 'a list \<Rightarrow> 'a list" where
  "updateFirst P f [] = []"
| "updateFirst P f (x # xs) = (if P x then f x # xs else x # updateFirst P f xs)"

fun removeFirst :: "('a \<Rightarrow> bool) \<Rightarrow> 'a list \<Rightarrow> 'a list" where
  "removeFirst P [] = []"
| "removeFirst P (x # xs) = (if P x then xs else x # removeFirst P xs)"

text \<open>
  \<open>findByIdAndUpdate(req.params.id, {...}, {new: true})\<close>: the id and the category are cast,
  a key whose value is \<open>undefined\<close> (an absent image or brand) is not part of the update,
  and the answer is the document after the update, \<open>null\<close> when no document has the id.
\<close>

definition updateProduct :: "(string \<Rightarrow> 'i option) \<Rightarrow> (string \<Rightarrow> rat option) \<Rightarrow> 'i db \<Rightarrow> string
    \<Rightarrow> body \<Rightarrow> 'i db \<times> 'i productDoc response" where
  "updateProduct cast coerce d productId b =
     (case productSchema_validate coerce b of
        Inl error \<Rightarrow> (d, BadRequest error)
      | Inr v \<Rightarrow>
          (case (cast productId, cast (v_category v)) of
             (Some i, Some c) \<Rightarrow>
               (let change = (\<lambda>old. old\<lparr>name := v_name v, description := v_description v,
                                price := v_price v, category := c, stock := v_stock v,
                                image_url := (case v_image v of None \<Rightarrow> image_url old
                                              | Some s \<Rightarrow> Some s),
                                brand := (case v_brand v of None \<Rightarrow> brand old
                                          | Some s \<Rightarrow> Some s)\<rparr>);
                    d' = d\<lparr>productDocs := updateFirst (\<lambda>p. pid p = i) change (productDocs d)\<rparr>
                in case findById d' i of
                     Some doc \<Rightarrow> (d', Ok doc)
                   | None \<Rightarrow> (d', NotFound ''Product not found''))
           | _ \<Rightarrow> (d, Threw CastError)))"

definition deleteProduct :: "(string \<Rightarrow> 'i option) \<Rightarrow> 'i db \<Rightarrow> string \<Rightarrow> 'i db \<times> string response" where
  "deleteProduct cast d productId =
     (case cast productId of
        None \<Rightarrow> (d, Threw CastError)
      | Some i \<Rightarrow>
          (case findById d i of
             Some doc \<Rightarrow>
               (d\<lparr>productDocs := removeFirst (\<lambda>p. pid p = i) (productDocs d)\<rparr>,
                Ok ''Product removed'')
           | None \<Rightarrow> (d, NotFound ''Product not found'')))"

subsection \<open>getProducts and the regular expression of the search\<close>

text \<open>
  The search term is the \<open>$regex\<close> of the query, with option \<open>i\<close>: the store compiles it as a
  regular expression and keeps the products whose name it matches somewhere. Modelled here
  are the patterns made of literal characters and the dot, on names of one \<open>char\<close> per
  character; the dot matches any character but a newline, a literal matches itself in
  either case. Every other pattern is left to \<open>engine\<close>, the rest of the store's regular
  expression library (\<open>None\<close>: the pattern does not compile, and the query fails).
\<close>

datatype atom = Lit char | AnyChar

definition metachars :: string where
  "metachars = CHR 0x5C # ''^$.|?*+()[]{}''"

definition lower :: "char \<Rightarrow> char" where
  "lower c =
     (case map_of (zip ''ABCDEFGHIJKLMNOPQRSTUVWXYZ'' ''abcdefghijklmnopqrstuvwxyz'') c of
        None \<Rightarrow> c
      | Some l \<Rightarrow> l)"

fun parseRegex :: "string \<Rightarrow> atom list option" where
  "parseRegex [] = Some []"
| "parseRegex (c # cs) =
     (if c = CHR ''.'' then map_option (Cons AnyChar) (parseRegex cs)
      else if c \<in> set metachars then None
      else map_option (Cons (Lit c)) (parseRegex cs))"

fun matchAtom :: "atom \<Rightarrow> char \<Rightarrow> bool" where
  "matchAtom (Lit c) x = (lower c = lower x)"
| "matchAtom AnyChar x = (x \<noteq> CHR 0x0A)"

fun matchPrefix :: "atom list \<Rightarrow> string \<Rightarrow> bool" where
  "matchPrefix [] s = True"
| "matchPrefix (a # as) [] = False"
| "matchPrefix (a # as) (x # s) = (matchAtom a x \<and> matchPrefix as s)"

fun matchAnywhere :: "atom list \<Rightarrow> string \<Rightarrow> bool" where
  "matchAnywhere as [] = matchPrefix as []"
| "matchAnywhere as (x # s) = (matchPrefix as (x # s) \<or> matchAnywhere as s)"

definition regexCompile :: "(string \<Rightarrow> (string \<Rightarrow> bool) option) \<Rightarrow> string
    \<Rightarrow> (string \<Rightarrow> bool) option" where
  "regexCompile engine pattern =
     (case parseRegex pattern of
        Some as \<Rightarrow> Some (matchAnywhere as)
      | None \<Rightarrow> engine pattern)"

record 'i productList =
  count :: nat
  products :: "'i productDoc list"

text \<open>
  \<open>req.query.search\<close> is absent or a string; the empty string is falsy and takes the branch
  without a search.
\<close>

definition getProducts :: "(string \<Rightarrow> (string \<Rightarrow> bool) option) \<Rightarrow> 'i db \<Rightarrow> string option
    \<Rightarrow> 'i productList response" where
  "getProducts engine d search =
     (case (case search of
              None \<Rightarrow> Some (productDocs d)
            | Some term \<Rightarrow>
                if term = [] then Some (productDocs d)
                else (case regexCompile engine term of
                        None \<Rightarrow> None
                      | Some matches \<Rightarrow> Some (filter (\<lambda>p. matches (name p)) (productDocs d)))) of
        None \<Rightarrow> Threw MongoServerError
      | Some ps \<Rightarrow> Ok \<lparr>count = length ps, products = ps\<rparr>)"

subsection \<open>getProductsByCategory\<close>

text \<open>An array is truthy in JavaScript, the empty one too.\<close>

definition truthy :: "'a list \<Rightarrow> bool" where
  "truthy xs = True"

definition getProductsByCategory :: "(string \<Rightarrow> 'i option) \<Rightarrow> 'i db \<Rightarrow> string
    \<Rightarrow> 'i productList response" where
  "getProductsByCategory cast d categoryId =
     (case cast categoryId of
        None \<Rightarrow> Threw CastError
      | Some c \<Rightarrow>
          (let ps = filter (\<lambda>p. category p = c) (productDocs d);
               n = length ps
           in if truthy ps then Ok \<lparr>count = n, products = ps\<rparr>
              else NotFound ''Products not found for this category''))"

section \<open>The requests of a running server\<close>

text \<open>
  The handlers that the two modules export and that write: \<open>addToCart\<close>, \<open>updateCart\<close>
  and \<open>removeFromCart\<close> of the cart module (its last \<open>module.exports\<close>), and
  \<open>createProduct\<close>, \<open>updateProduct\<close> and \<open>deleteProduct\<close> of the product module. The
  exported handlers that only read leave the store as it is. A request names the handler
  with what the handler takes from it, and \<open>run\<close> is the store after a sequence of
  requests, one after the other.
\<close>

datatype 'i request =
    AddToCart 'i body
  | UpdateCart 'i body
  | RemoveFromCart 'i string
  | CreateProduct 'i body
  | UpdateProduct string body
  | DeleteProduct string

fun handle :: "(string \<Rightarrow> 'i option) \<Rightarrow> (string \<Rightarrow> rat option) \<Rightarrow> ('i \<Rightarrow> 'u option)
    \<Rightarrow> ('i \<Rightarrow> 'c option) \<Rightarrow> 'i db \<Rightarrow> 'i request \<Rightarrow> 'i db" where
  "handle cast coerce users categories d (AddToCart u b) =
     fst (addToCart cast coerce users categories d u b)"
| "handle cast coerce users categories d (UpdateCart u b) = fst (updateCart cast coerce d u b)"
| "handle cast coerce users categories d (RemoveFromCart u productId) =
     fst (removeFromCart cast d u productId)"
| "handle cast coerce users categories d (CreateProduct fresh b) =
     fst (createProduct cast coerce d fresh b)"
| "handle cast coerce users categories d (UpdateProduct productId b) =
     fst (updateProduct cast coerce d productId b)"
| "handle cast coerce users categories d (DeleteProduct productId) =
     fst (deleteProduct cast d productId)"

definition run :: "(string \<Rightarrow> 'i option) \<Rightarrow> (string \<Rightarrow> rat option) \<Rightarrow> ('i \<Rightarrow> 'u option)
    \<Rightarrow> ('i \<Rightarrow> 'c option) \<Rightarrow> 'i db \<Rightarrow> 'i request list \<Rightarrow> 'i db" where
  "run cast coerce users categories d requests = foldl (handle cast coerce users categories) d requests"

section \<open>Properties of carts, in the words of the specification\<close>

text \<open>At most one item of a cart references a given product.\<close>

definition uniqueProducts :: "'i cartItem list \<Rightarrow> bool" where
  "uniqueProducts its = distinct (map product its)"

definition cartInvariant :: "'i db \<Rightarrow> 'i \<Rightarrow> bool" where
  "cartInvariant d u = (case cartDocs d u of None \<Rightarrow> True | Some its \<Rightarrow> uniqueProducts its)"


text \<open>Every quantity of a cart is a positive integer.\<close>

definition positiveInteger :: "rat \<Rightarrow> bool" where
  "positiveInteger q = (q > 0 \<and> is_integer q)"

definition quantitiesValid :: "'i db \<Rightarrow> 'i \<Rightarrow> bool" where
  "quantitiesValid d u =
     (case cartDocs d u of
        None \<Rightarrow> True
      | Some its \<Rightarrow> list_all (\<lambda>it. positiveInteger (quantity it)) its)"

text \<open>
  A payload the contract of a cart item refuses for its quantity: the key is missing, the
  value is no number, or the number is not positive or not an integer.
\<close>

definition badQuantity :: "(string \<Rightarrow> rat option) \<Rightarrow> body \<Rightarrow> bool" where
  "badQuantity coerce b =
     (case field b ''quantity'' of
        None \<Rightarrow> True
      | Some v \<Rightarrow> (case toNumber coerce v of None \<Rightarrow> True | Some q \<Rightarrow> \<not> positiveInteger q))"

text \<open>The required fields of a product, each with the message of its absence.\<close>

definition requiredProductFields :: "(string \<times> string) list" where
  "requiredProductFields =
     [(''name'', ''Name is required''), (''description'', ''Description is required''),
      (''price'', ''Price is required''), (''category'', ''Category is required''),
      (''stock'', ''Stock is required'')]"

definition missingMessages :: "body \<Rightarrow> string list" where
  "missingMessages b =
     map snd (filter (\<lambda>km. field b (fst km) = None) requiredProductFields)"

text \<open>The name contains the search term as a substring, letter case ignored.\<close>

definition containsIgnoringCase :: "string \<Rightarrow> string \<Rightarrow> bool" where
  "containsIgnoringCase term s = sublist (map lower term) (map lower s)"

section \<open>An example shop\<close>

definition cast0 :: "string \<Rightarrow> nat option" where
  "cast0 = map_of [(''p1'', 11), (''p2'', 12), (''p3'', 13), (''u7'', 7), (''u8'', 8), (''c20'', 20)]"

definition coerce0 :: "string \<Rightarrow> rat option" where
  "coerce0 = map_of [(''1'', 1), (''2'', 2), (''3'', 3)]"

definition engine0 :: "string \<Rightarrow> (string \<Rightarrow> bool) option" where
  "engine0 pattern = None"

definition shoe :: "nat productDoc" where
  "shoe = \<lparr>pid = 11, name = ''Shoe'', description = ''A shoe'', price = 30, category = 20,
           stock = 4, image_url = None, brand = None\<rparr>"

definition hat :: "nat productDoc" where
  "hat = \<lparr>pid = 12, name = ''Hat'', description = ''A hat'', price = 12, category = 21,
          stock = 9, image_url = None, brand = Some ''Acme''\<rparr>"

definition shop :: "nat db" where
  "shop = \<lparr>cartDocs = [7 \<mapsto> [\<lparr>product = 11, quantity = 2\<rparr>, \<lparr>product = 12, quantity = 1\<rparr>]],
           productDocs = [shoe, hat]\<rparr>"

definition users0 :: "nat \<Rightarrow> string option" where
  "users0 = map_of [(7, ''Ada''), (8, ''Bo'')]"

definition categories0 :: "nat \<Rightarrow> string option" where
  "categories0 = map_of [(20, ''Footwear''), (21, ''Headwear'')]"

text \<open>
  The shop before any cart exists; the requests that lead from it to \<open>shop\<close>; the shop
  after \<open>deleteProduct\<close> removed a product that a cart references; and the shop after an
  update set a quantity to the largest safe integer.
\<close>

definition emptyShop :: "nat db" where
  "emptyShop = \<lparr>cartDocs = Map.empty, productDocs = [shoe, hat]\<rparr>"

definition payload :: "string \<Rightarrow> rat \<Rightarrow> body" where
  "payload p q = [(''product'', JStr p), (''quantity'', JNum q)]"

definition shopRequests :: "nat request list" where
  "shopRequests = [AddToCart 7 (payload ''p1'' 2), AddToCart 7 (payload ''p2'' 1)]"

definition dangling :: "nat db" where
  "dangling = fst (deleteProduct cast0 shop ''p1'')"



text \<open>A payload without a product and with the quantity \<open>-3/2\<close>.\<close>

definition halves :: body where
  "halves = [(''quantity'', JNum (- 3 / 2))]"

text \<open>A product payload with neither a price nor a stock, and an empty name.\<close>

definition noPrice :: body where
  "noPrice = [(''name'', JStr []), (''description'', JStr ''A scarf''), (''category'', JStr ''c20'')]"

section \<open>Sums of Numbers\<close>

lemma exponent_lower: "q \<noteq> 0 \<Longrightarrow> 2 powi exponent q \<le> \<bar>q\<bar>"
proof -
  assume q: "q \<noteq> 0"
  obtain n d where nd: "quotient_of \<bar>q\<bar> = (n, d)" by (cases "quotient_of \<bar>q\<bar>")
  then have d: "d > 0" and eq: "\<bar>q\<bar> = of_int n / of_int d"
    by (auto simp: quotient_of_denom_pos quotient_of_div)
  from q have "\<bar>q\<bar> > 0" by simp
  with eq d have n: "n > 0" by (simp add: zero_less_divide_iff)
  let ?e = "bitlen n - bitlen d"
  show ?thesis
  proof (cases "2 powi ?e \<le> \<bar>q\<bar>")
    case True
    then show ?thesis by (simp add: exponent_def nd)
  next
    case False
    from bitlen_bounds [OF n] have bn: "2 ^ nat (bitlen n - 1) \<le> n" by simp
    from bitlen_bounds [OF d] have bd: "d < 2 ^ nat (bitlen d)" by simp
    have n1: "bitlen n - 1 \<ge> 0" using n by (simp add: bitlen_alt_def)
    have d0: "bitlen d \<ge> 0" by (rule bitlen_nonneg)
    have "?e - 1 = (bitlen n - 1) - bitlen d" by arith
    then have "(2::rat) powi (?e - 1) = 2 powi ((bitlen n - 1) - bitlen d)"
      by (rule arg_cong)
    also have "\<dots> = 2 powi (bitlen n - 1) / 2 powi bitlen d"
      by (rule power_int_diff) simp
    also have "\<dots> = 2 ^ nat (bitlen n - 1) / 2 ^ nat (bitlen d)"
      using n1 d0 by (simp add: power_int_def)
    also have "\<dots> \<le> of_int n / of_int d"
    proof (rule frac_le)
      show "(0::rat) \<le> of_int n" using n by simp
      show "(2::rat) ^ nat (bitlen n - 1) \<le> of_int n"
        using bn by (metis of_int_le_iff of_int_numeral of_int_power)
      show "(0::rat) < of_int d" using d by simp
      show "(of_int d :: rat) \<le> 2 ^ nat (bitlen d)"
        using bd by (metis less_imp_le of_int_le_iff of_int_numeral of_int_power)
    qed
    finally have "(2::rat) powi (?e - 1) \<le> \<bar>q\<bar>" by (simp add: eq)
    with False show ?thesis by (simp add: exponent_def nd)
  qed
qed


lemma roundHalfEven_of_int: "roundHalfEven (of_int k) = k"
  by (simp add: roundHalfEven_def)

lemma roundHalfEven_ge_floor: "roundHalfEven x \<ge> \<lfloor>x\<rfloor>"
  by (simp add: roundHalfEven_def)

lemma toDouble_small_exponent:
  assumes "exponent (of_int k) \<le> 52"
  shows "toDouble (of_int k) = of_int k"
proof (cases "k = 0")
  case True
  then show ?thesis by (simp add: toDouble_def)
next
  case False
  let ?e = "exponent (rat_of_int k)"
  let ?m = "nat (52 - ?e)"
  have u: "(2::rat) powi (?e - 52) = inverse (2 ^ ?m)"
    using assms by (simp add: power_int_def power_one_over inverse_eq_divide)
  have "rat_of_int k / 2 powi (?e - 52) = of_int (k * 2 ^ ?m)"
    by (simp add: u divide_inverse)
  then have "roundHalfEven (rat_of_int k / 2 powi (?e - 52)) = k * 2 ^ ?m"
    by (simp only: roundHalfEven_of_int)
  then show ?thesis using False by (simp add: toDouble_def u)
qed


lemma toDouble_positive:
  assumes "k > 0"
  shows "\<exists>j > 0. toDouble (of_int k) = of_int j"
proof (cases "exponent (rat_of_int k) \<le> 52")
  case True
  then have "toDouble (of_int k) = of_int k" by (rule toDouble_small_exponent)
  with assms show ?thesis by blast
next
  case False
  let ?e = "exponent (rat_of_int k)"
  let ?m = "nat (?e - 52)"
  from assms have k0: "rat_of_int k \<noteq> 0" by simp
  from False have m: "?e = 52 + int ?m" by simp
  have u: "(2::rat) powi (?e - 52) = 2 ^ ?m"
    using False by (simp add: power_int_def)
  have "(2::rat) powi (52 + int ?m) = 2 powi 52 * 2 powi int ?m"
    by (rule power_int_add) simp
  then have split: "(2::rat) powi ?e = 2 ^ 52 * 2 ^ ?m"
    unfolding m [symmetric] by (simp add: power_int_def)
  from exponent_lower [OF k0] assms have "(2::rat) powi ?e \<le> rat_of_int k" by simp
  with split have "(2::rat) ^ 52 * 2 ^ ?m \<le> rat_of_int k" by simp
  then have "(2::rat) ^ 52 \<le> rat_of_int k / 2 ^ ?m"
    by (simp add: pos_le_divide_eq)
  moreover have "(1::rat) \<le> 2 ^ 52" by simp
  ultimately have "1 \<le> rat_of_int k / 2 ^ ?m" by (rule order_trans [rotated])
  then have "1 \<le> \<lfloor>rat_of_int k / 2 ^ ?m\<rfloor>" by (simp add: le_floor_iff)
  with roundHalfEven_ge_floor [of "rat_of_int k / 2 ^ ?m"]
  have r: "0 < roundHalfEven (rat_of_int k / 2 ^ ?m)" by linarith
  have "toDouble (of_int k) = of_int (roundHalfEven (rat_of_int k / 2 ^ ?m) * 2 ^ ?m)"
    using k0 by (simp add: toDouble_def u)
  moreover from r have "0 < roundHalfEven (rat_of_int k / 2 ^ ?m) * 2 ^ ?m" by simp
  ultimately show ?thesis by blast
qed





section \<open>The search of an array\<close>

lemma js_find_SomeD:
  "js_find f xs = Inr (Some k) \<Longrightarrow>
     k < length xs \<and> f (xs ! k) = Inr True \<and> (\<forall>j<k. f (xs ! j) = Inr False)"
proof (induction xs arbitrary: k)
  case Nil
  then show ?case by simp
next
  case (Cons a xs)
  show ?case
  proof (cases "f a")
    case (Inl e)
    with Cons.prems show ?thesis by simp
  next
    case (Inr b)
    show ?thesis
    proof (cases b)
      case True
      with Inr Cons.prems show ?thesis by simp
    next
      case False
      with Inr Cons.prems obtain k' where k': "js_find f xs = Inr (Some k')" "k = Suc k'"
        by (auto split: sum.splits option.splits)
      from Cons.IH [OF k'(1)] have ih: "k' < length xs" "f (xs ! k') = Inr True"
        "\<forall>j<k'. f (xs ! j) = Inr False" by auto
      have "\<forall>j<Suc k'. f ((a # xs) ! j) = Inr False"
      proof (intro allI impI)
        fix j assume "j < Suc k'"
        then show "f ((a # xs) ! j) = Inr False"
          using ih(3) Inr False by (cases j) auto
      qed
      with ih k'(2) show ?thesis by simp
    qed
  qed
qed

lemma js_find_NoneD:
  "js_find f xs = Inr None \<Longrightarrow> \<forall>x\<in>set xs. f x = Inr False"
  by (induction xs) (auto split: sum.splits option.splits bool.splits)

lemma js_find_hit:
  "\<forall>a\<in>set xs. f a = Inr False \<Longrightarrow> f x = Inr True
     \<Longrightarrow> js_find f (xs @ x # ys) = Inr (Some (length xs))"
  by (induction xs) auto

lemma js_find_miss:
  "\<forall>x\<in>set xs. f x = Inr False \<Longrightarrow> js_find f xs = Inr None"
  by (induction xs) auto

lemma js_find_throw:
  "\<forall>a\<in>set xs. f a = Inr False \<Longrightarrow> f x = Inl e
     \<Longrightarrow> js_find f (xs @ x # ys) = Inl e"
  by (induction xs) auto

lemma js_find_pure: "(\<And>x. \<exists>b. f x = Inr b) \<Longrightarrow> js_find f xs \<noteq> Inl e"
proof (induction xs)
  case Nil
  then show ?case by simp
next
  case (Cons a xs)
  from Cons.prems obtain b where "f a = Inr b" by blast
  with Cons show ?case by (auto split: sum.splits option.splits bool.splits)
qed

lemma first_index_split:
  assumes "k < length xs" "P (xs ! k)" "\<forall>j<k. \<not> P (xs ! j)"
  shows "\<exists>us vs. xs = us @ xs ! k # vs \<and> length us = k \<and> (\<forall>a\<in>set us. \<not> P a)"
proof (intro exI conjI)
  show "xs = take k xs @ xs ! k # drop (Suc k) xs"
    using assms(1) by (simp add: id_take_nth_drop)
  show "length (take k xs) = k" using assms(1) by simp
  show "\<forall>a\<in>set (take k xs). \<not> P a"
    using assms(1,3) by (auto simp: in_set_conv_nth)
qed

section \<open>The contract of a cart item\<close>

lemma validate_InrD:
  assumes "cartItemSchema_validate coerce b = Inr (p, q)"
  shows "field b ''product'' = Some (JStr p)" "p \<noteq> []"
    "\<exists>v. field b ''quantity'' = Some v \<and> toNumber coerce v = Some q"
    "q > 0" "is_integer q" "\<not> unsafe q"
    "unknownKeys [''product'', ''quantity''] b = []"
  using assms
  by (auto simp: cartItemSchema_validate_def cartItemSchema_errors_def cartItem_product_def
      cartItem_quantity_def required_def joi_string_def joi_number_def errorsOf_def
      integer_rule_def positive_rule_def
      split: option.splits jvalue.splits if_splits sum.splits)

lemma validate_payload:
  assumes "p \<noteq> []" "q > 0" "is_integer q" "\<not> unsafe q"
  shows "cartItemSchema_validate coerce (payload p q) = Inr (p, q)"
  using assms
  by (simp add: cartItemSchema_validate_def cartItemSchema_errors_def cartItem_product_def
      cartItem_quantity_def required_def joi_string_def joi_number_def errorsOf_def
      integer_rule_def positive_rule_def field_def toNumber_def unknownKeys_def payload_def)

lemma is_integer_numeral: "is_integer (numeral n)" "is_integer 1"
  by (simp_all add: is_integer_def)

lemma safe_small: "\<bar>q\<bar> \<le> 1000 \<Longrightarrow> \<not> unsafe q"
  by (simp add: unsafe_def)

section \<open>References and their documents\<close>

lemma findById_pid: "findById d i = Some doc \<Longrightarrow> pid doc = i"
  by (auto simp: findById_def find_Some_iff)

lemma populatedEquals_resolved:
  assumes "findById d (product it) = Some doc"
  shows "populatedEquals cast s (it, Some (doc, c)) = Inr (cast s = Some (product it))"
proof -
  from assms have "pid doc = product it" by (rule findById_pid)
  then show ?thesis by (simp add: populatedEquals_def equalsId_def)
qed

lemma populatedEquals_dangling: "populatedEquals cast s (it, None) = Inl TypeError"
  by (simp add: populatedEquals_def)

lemma populateItems_element:
  assumes "a \<in> set (populateItems categories d its)"
  shows "\<exists>it\<in>set its. (findById d (product it) = None \<and> a = (it, None))
           \<or> (\<exists>doc. findById d (product it) = Some doc
                  \<and> a = (it, Some (doc, categories (category doc))))"
proof -
  from assms obtain it where it: "it \<in> set its"
    and a: "a = (it, map_option (\<lambda>doc. (doc, categories (category doc))) (findById d (product it)))"
    by (auto simp: populateItems_def)
  show ?thesis
  proof (cases "findById d (product it)")
    case None
    with it a show ?thesis by (intro bexI [of _ it]) simp_all
  next
    case (Some doc)
    with it a show ?thesis by (intro bexI [of _ it]) simp_all
  qed
qed

lemma populatedEquals_element:
  assumes "a \<in> set (populateItems categories d its)"
  shows "\<exists>it\<in>set its. populatedEquals cast s a
           = (if findById d (product it) = None then Inl TypeError
              else Inr (cast s = Some (product it)))"
proof -
  from populateItems_element [OF assms] obtain it where it: "it \<in> set its"
    and a: "(findById d (product it) = None \<and> a = (it, None))
           \<or> (\<exists>doc. findById d (product it) = Some doc
                  \<and> a = (it, Some (doc, categories (category doc))))"
    by blast
  from a have "populatedEquals cast s a
           = (if findById d (product it) = None then Inl TypeError
              else Inr (cast s = Some (product it)))"
    by (auto simp: populatedEquals_dangling populatedEquals_resolved)
  with it show ?thesis by blast
qed

lemma populated_NoneD:
  assumes "js_find (populatedEquals cast s) (populateItems categories d its) = Inr None"
  shows "\<forall>it\<in>set its. cast s \<noteq> Some (product it)"
proof
  fix it assume it: "it \<in> set its"
  let ?a = "(it, map_option (\<lambda>doc. (doc, categories (category doc))) (findById d (product it)))"
  from it have "?a \<in> set (populateItems categories d its)"
    by (auto simp: populateItems_def)
  with js_find_NoneD [OF assms] have f: "populatedEquals cast s ?a = Inr False" by blast
  show "cast s \<noteq> Some (product it)"
  proof (cases "findById d (product it)")
    case None
    with f show ?thesis by (simp add: populatedEquals_def)
  next
    case (Some doc)
    from populatedEquals_resolved [OF Some, where cast = cast and s = s
        and c = "categories (category doc)"] f Some
    show ?thesis by simp
  qed
qed

lemma populated_SomeD:
  assumes "js_find (populatedEquals cast s) (populateItems categories d its) = Inr (Some k)"
  shows "k < length its" "cast s = Some (product (its ! k))"
    "\<forall>j<k. cast s \<noteq> Some (product (its ! j))"
proof -
  let ?pop = "populateItems categories d its"
  have nth: "\<And>j. j < length its \<Longrightarrow> ?pop ! j
      = (its ! j, map_option (\<lambda>doc. (doc, categories (category doc))) (findById d (product (its ! j))))"
    by (simp add: populateItems_def)
  have test: "\<And>j b. j < length its \<Longrightarrow> populatedEquals cast s (?pop ! j) = Inr b
      \<Longrightarrow> b = (cast s = Some (product (its ! j)))"
  proof -
    fix j b assume j: "j < length its" and e: "populatedEquals cast s (?pop ! j) = Inr b"
    show "b = (cast s = Some (product (its ! j)))"
    proof (cases "findById d (product (its ! j))")
      case None
      with e nth [OF j] show ?thesis by (simp add: populatedEquals_def)
    next
      case (Some doc)
      from populatedEquals_resolved [OF Some, where cast = cast and s = s
          and c = "categories (category doc)"] e nth [OF j] Some
      show ?thesis by simp
    qed
  qed
  from js_find_SomeD [OF assms]
  have k: "k < length ?pop"
    and t: "populatedEquals cast s (?pop ! k) = Inr True"
    and f: "\<forall>j<k. populatedEquals cast s (?pop ! j) = Inr False"
    by auto
  from k show kl: "k < length its" by (simp add: populateItems_def)
  from test [OF kl t] show "cast s = Some (product (its ! k))" by simp
  show "\<forall>j<k. cast s \<noteq> Some (product (its ! j))"
  proof (intro allI impI)
    fix j assume "j < k"
    with f kl have "populatedEquals cast s (?pop ! j) = Inr False" and "j < length its" by auto
    from test [OF this(2) this(1)] show "cast s \<noteq> Some (product (its ! j))" by simp
  qed
qed

lemma plain_SomeD:
  assumes "js_find (itemEquals cast s) its = Inr (Some k)"
  shows "k < length its" "cast s = Some (product (its ! k))"
    "\<forall>j<k. cast s \<noteq> Some (product (its ! j))"
  using js_find_SomeD [OF assms] by (auto simp: itemEquals_def equalsId_def)

lemma plain_NoneD:
  assumes "js_find (itemEquals cast s) its = Inr None"
  shows "\<forall>it\<in>set its. cast s \<noteq> Some (product it)"
  using js_find_NoneD [OF assms] by (auto simp: itemEquals_def equalsId_def)

lemma plain_not_Inl: "js_find (itemEquals cast s) its \<noteq> Inl e"
  by (rule js_find_pure) (simp add: itemEquals_def)

lemma plain_SomeI:
  assumes "k < length its" "cast s = Some (product (its ! k))"
    "\<forall>j<k. cast s \<noteq> Some (product (its ! j))"
  shows "js_find (itemEquals cast s) its = Inr (Some k)"
proof -
  from first_index_split [of k its "\<lambda>it. cast s = Some (product it)"] assms
  obtain us vs where s: "its = us @ its ! k # vs" "length us = k"
    "\<forall>a\<in>set us. cast s \<noteq> Some (product a)" by blast
  have "js_find (itemEquals cast s) (us @ its ! k # vs) = Inr (Some (length us))"
    by (rule js_find_hit) (use s(3) assms(2) in \<open>auto simp: itemEquals_def equalsId_def\<close>)
  with s(1,2) show ?thesis by simp
qed

lemma plain_NoneI:
  "\<forall>it\<in>set its. cast s \<noteq> Some (product it) \<Longrightarrow> js_find (itemEquals cast s) its = Inr None"
  by (rule js_find_miss) (simp add: itemEquals_def equalsId_def)

section \<open>The store\<close>

lemma save_same: "cartDocs d u = Some its \<Longrightarrow> save d u its = d"
  by (simp add: save_def fun_upd_idem)

lemma cartDocs_save: "cartDocs (save d u its) v = (if v = u then Some its else cartDocs d v)"
  by (simp add: save_def)

lemma productDocs_save: "productDocs (save d u its) = productDocs d"
  by (simp add: save_def)

section \<open>Removing an item\<close>

text \<open>
  C5. With a cart, \<open>removeFromCart\<close> answers with the cart without the items that reference
  the product, and stores it; no other cart and no product changes; when no item
  references the product nothing changes and the answer is still the cart; a second
  removal gives the same store and the same answer. Without a cart the answer is the 404
  "Cart not found".
\<close>

theorem removeFromCart_filter_idempotent:
  "(cartDocs d u = None \<longrightarrow> removeFromCart cast d u s = (d, NotFound ''Cart not found'')) \<and>
   (\<forall>its. cartDocs d u = Some its \<longrightarrow>
      (case removeFromCart cast d u s of (d', r) \<Rightarrow>
          r = Ok \<lparr>user = u, items = [it\<leftarrow>its. cast s \<noteq> Some (product it)]\<rparr>
        \<and> cartDocs d' u = Some [it\<leftarrow>its. cast s \<noteq> Some (product it)]
        \<and> (\<forall>v. v \<noteq> u \<longrightarrow> cartDocs d' v = cartDocs d v)
        \<and> productDocs d' = productDocs d
        \<and> ((\<forall>it\<in>set its. cast s \<noteq> Some (product it)) \<longrightarrow>
              d' = d \<and> r = Ok \<lparr>user = u, items = its\<rparr>)
        \<and> removeFromCart cast d' u s = (d', r)))"
proof (intro conjI allI impI)
  assume "cartDocs d u = None"
  then show "removeFromCart cast d u s = (d, NotFound ''Cart not found'')"
    by (simp add: removeFromCart_def)
next
  fix its
  assume c: "cartDocs d u = Some its"
  let ?its' = "[it\<leftarrow>its. cast s \<noteq> Some (product it)]"
  have r: "removeFromCart cast d u s = (save d u ?its', Ok \<lparr>user = u, items = ?its'\<rparr>)"
    using c by (simp add: removeFromCart_def equalsId_def Let_def)
  have again: "removeFromCart cast (save d u ?its') u s
      = (save d u ?its', Ok \<lparr>user = u, items = ?its'\<rparr>)"
    by (simp add: removeFromCart_def equalsId_def save_def Let_def)
  have noop: "(\<forall>it\<in>set its. cast s \<noteq> Some (product it)) \<longrightarrow> save d u ?its' = d \<and> ?its' = its"
    using c by (auto simp: save_same)
  show "case removeFromCart cast d u s of (d', r) \<Rightarrow>
          r = Ok \<lparr>user = u, items = ?its'\<rparr>
        \<and> cartDocs d' u = Some ?its'
        \<and> (\<forall>v. v \<noteq> u \<longrightarrow> cartDocs d' v = cartDocs d v)
        \<and> productDocs d' = productDocs d
        \<and> ((\<forall>it\<in>set its. cast s \<noteq> Some (product it)) \<longrightarrow>
              d' = d \<and> r = Ok \<lparr>user = u, items = its\<rparr>)
        \<and> removeFromCart cast d' u s = (d', r)"
    unfolding r using again noop by (simp add: save_def)
qed

theorem removeFromCart_filter_idempotent_witness:
  "cartDocs shop 8 = None
   \<and> removeFromCart cast0 shop 8 ''p1'' = (shop, NotFound ''Cart not found'')
   \<and> cartDocs shop 7 = Some [\<lparr>product = 11, quantity = 2\<rparr>, \<lparr>product = 12, quantity = 1\<rparr>]
   \<and> snd (removeFromCart cast0 shop 7 ''p1'')
       = Ok \<lparr>user = 7, items = [\<lparr>product = 12, quantity = 1\<rparr>]\<rparr>
   \<and> cartDocs (fst (removeFromCart cast0 shop 7 ''p1'')) 7
       = Some [\<lparr>product = 12, quantity = 1\<rparr>]
   \<and> removeFromCart cast0 (fst (removeFromCart cast0 shop 7 ''p1'')) 7 ''p1''
       = removeFromCart cast0 shop 7 ''p1''
   \<and> removeFromCart cast0 shop 7 ''p3''
       = (shop, Ok \<lparr>user = 7, items = [\<lparr>product = 11, quantity = 2\<rparr>,
                                        \<lparr>product = 12, quantity = 1\<rparr>]\<rparr>)"
proof -
  have none: "cartDocs shop 8 = None" by (simp add: shop_def)
  have some: "cartDocs shop 7 = Some [\<lparr>product = 11, quantity = 2\<rparr>, \<lparr>product = 12, quantity = 1\<rparr>]"
    by (simp add: shop_def)
  have c1: "cast0 ''p1'' = Some 11" and c3: "cast0 ''p3'' = Some 13" by (simp_all add: cast0_def)
  show ?thesis
    using none some
      removeFromCart_filter_idempotent [of shop 8 cast0 "''p1''"]
      removeFromCart_filter_idempotent [of shop 7 cast0 "''p1''"]
      removeFromCart_filter_idempotent [of shop 7 cast0 "''p3''"]
    by (auto simp: c1 c3 split: prod.splits)
qed

text \<open>
  C10. With a cart, whatever its items, the cart that \<open>removeFromCart\<close> stores and answers
  with has no item left that references the product: every match is removed, not the
  first one only.
\<close>

theorem removeFromCart_removes_every_match:
  assumes "cartDocs d u = Some its"
  shows "\<exists>its'. cartDocs (fst (removeFromCart cast d u s)) u = Some its'
           \<and> snd (removeFromCart cast d u s) = Ok \<lparr>user = u, items = its'\<rparr>
           \<and> (\<forall>it\<in>set its'. \<not> equalsId cast (product it) s)
           \<and> (\<forall>P. cast s = Some P \<longrightarrow> P \<notin> product ` set its')"
  using assms
  by (auto simp: removeFromCart_def Let_def cartDocs_save equalsId_def)

theorem removeFromCart_removes_every_match_witness:
  "cartDocs (fst (updateCartForUser cast0 shop ''u7'' [(''p1'', 1), (''p2'', 5), (''p1'', 2)])) 7
     = Some [\<lparr>product = 11, quantity = 1\<rparr>, \<lparr>product = 12, quantity = 5\<rparr>, \<lparr>product = 11, quantity = 2\<rparr>]
   \<and> cartDocs (fst (removeFromCart cast0
        (fst (updateCartForUser cast0 shop ''u7'' [(''p1'', 1), (''p2'', 5), (''p1'', 2)])) 7 ''p1'')) 7
     = Some [\<lparr>product = 12, quantity = 5\<rparr>]"
proof -
  let ?d = "fst (updateCartForUser cast0 shop ''u7'' [(''p1'', 1), (''p2'', 5), (''p1'', 2)])"
  have c: "cartDocs ?d 7
      = Some [\<lparr>product = 11, quantity = 1\<rparr>, \<lparr>product = 12, quantity = 5\<rparr>, \<lparr>product = 11, quantity = 2\<rparr>]"
    by (simp add: updateCartForUser_def cast0_def cartDocs_save Let_def)
  from removeFromCart_removes_every_match [OF c, of cast0 "''p1''"]
  obtain its' where its': "cartDocs (fst (removeFromCart cast0 ?d 7 ''p1'')) 7 = Some its'"
    and no: "\<forall>P. cast0 ''p1'' = Some P \<longrightarrow> P \<notin> product ` set its'"
    by blast
  have "cartDocs (fst (removeFromCart cast0 ?d 7 ''p1'')) 7 = Some [\<lparr>product = 12, quantity = 5\<rparr>]"
    using c by (simp add: removeFromCart_def Let_def cartDocs_save equalsId_def cast0_def)
  with c its' no show ?thesis by simp
qed

section \<open>The uniqueness invariant\<close>

lemma map_product_set_quantity:
  "k < length its \<Longrightarrow> map product (its[k := (its ! k)\<lparr>quantity := q\<rparr>]) = map product its"
  by (simp add: map_update list_update_same_conv)

lemma unique_set_quantity:
  "k < length its \<Longrightarrow> uniqueProducts its
     \<Longrightarrow> uniqueProducts (its[k := (its ! k)\<lparr>quantity := q\<rparr>])"
  by (simp add: uniqueProducts_def map_product_set_quantity)

lemma unique_append:
  "uniqueProducts its \<Longrightarrow> \<forall>it\<in>set its. product it \<noteq> i
     \<Longrightarrow> uniqueProducts (its @ [\<lparr>product = i, quantity = q\<rparr>])"
  by (auto simp: uniqueProducts_def)

lemma unique_filter: "uniqueProducts its \<Longrightarrow> uniqueProducts (filter P its)"
  by (simp add: uniqueProducts_def distinct_map_filter)

lemma cartInvariant_save:
  "cartInvariant (save d u its) v = (if v = u then uniqueProducts its else cartInvariant d v)"
  by (simp add: cartInvariant_def save_def)

lemma addToCart_invariant:
  assumes "cartInvariant d v"
  shows "cartInvariant (fst (addToCart cast coerce users categories d u b)) v"
proof (cases "cartItemSchema_validate coerce b")
  case (Inl es)
  with assms show ?thesis by (simp add: addToCart_def)
next
  case (Inr pq)
  obtain p q where pq: "pq = (p, q)" by (cases pq)
  show ?thesis
  proof (cases "cartDocs d u")
    case None
    with Inr pq assms show ?thesis
      by (auto simp: addToCart_def cartInvariant_save uniqueProducts_def split: option.splits)
  next
    case (Some its)
    have inv: "v = u \<Longrightarrow> uniqueProducts its"
      using assms Some by (simp add: cartInvariant_def)
    show ?thesis
    proof (cases "js_find (populatedEquals cast p) (populateItems categories d its)")
      case (Inl e)
      with Inr pq Some assms show ?thesis by (simp add: addToCart_def)
    next
      case found: (Inr r)
      show ?thesis
      proof (cases r)
        case None
        from populated_NoneD [OF found [unfolded None]]
        have fresh: "\<forall>it\<in>set its. cast p \<noteq> Some (product it)" .
        show ?thesis
        proof (cases "cast p")
          case cn: None
          with Inr pq Some found None assms show ?thesis by (simp add: addToCart_def)
        next
          case (Some i)
          with fresh have "\<forall>it\<in>set its. product it \<noteq> i" by auto
          with inv have "v = u \<Longrightarrow> uniqueProducts (its @ [\<lparr>product = i, quantity = q\<rparr>])"
            by (simp add: unique_append)
          with Inr pq \<open>cartDocs d u = Some its\<close> found None Some assms show ?thesis
            by (simp add: addToCart_def cartInvariant_save Let_def)
        qed
      next
        case (Some k)
        from populated_SomeD(1) [OF found [unfolded Some]] have "k < length its" .
        with inv have "v = u \<Longrightarrow>
            uniqueProducts (its[k := (its ! k)\<lparr>quantity := js_add (quantity (its ! k)) q\<rparr>])"
          by (simp add: unique_set_quantity)
        with Inr pq \<open>cartDocs d u = Some its\<close> found Some assms show ?thesis
          by (simp add: addToCart_def cartInvariant_save Let_def)
      qed
    qed
  qed
qed

lemma updateCart_invariant:
  assumes "cartInvariant d v"
  shows "cartInvariant (fst (updateCart cast coerce d u b)) v"
proof (cases "cartItemSchema_validate coerce b")
  case (Inl es)
  with assms show ?thesis by (simp add: updateCart_def)
next
  case (Inr pq)
  obtain p q where pq: "pq = (p, q)" by (cases pq)
  show ?thesis
  proof (cases "cartDocs d u")
    case None
    with Inr pq assms show ?thesis by (simp add: updateCart_def)
  next
    case (Some its)
    have inv: "v = u \<Longrightarrow> uniqueProducts its"
      using assms Some by (simp add: cartInvariant_def)
    show ?thesis
    proof (cases "js_find (itemEquals cast p) its")
      case (Inl e)
      with Inr pq Some assms show ?thesis by (simp add: updateCart_def)
    next
      case found: (Inr r)
      show ?thesis
      proof (cases r)
        case None
        with Inr pq Some found assms show ?thesis by (simp add: updateCart_def)
      next
        case sk: (Some k)
        from plain_SomeD(1) [OF found [unfolded sk]] have "k < length its" .
        with inv have "v = u \<Longrightarrow> uniqueProducts (its[k := (its ! k)\<lparr>quantity := q\<rparr>])"
          by (simp add: unique_set_quantity)
        with Inr pq Some found sk assms show ?thesis
          by (simp add: updateCart_def cartInvariant_save Let_def)
      qed
    qed
  qed
qed

lemma removeFromCart_invariant:
  assumes "cartInvariant d v"
  shows "cartInvariant (fst (removeFromCart cast d u s)) v"
proof (cases "cartDocs d u")
  case None
  with assms show ?thesis by (simp add: removeFromCart_def)
next
  case (Some its)
  have "v = u \<Longrightarrow> uniqueProducts its"
    using assms Some by (simp add: cartInvariant_def)
  then have "v = u \<Longrightarrow> uniqueProducts (filter (\<lambda>item. \<not> equalsId cast (product item) s) its)"
    by (rule unique_filter)
  with Some assms show ?thesis
    by (simp add: removeFromCart_def cartInvariant_save Let_def)
qed

text \<open>
  C2. A cart in which no two items reference the same product stays so under
  \<open>addToCart\<close> (whether it creates the cart, merges or appends), \<open>updateCart\<close> and
  \<open>removeFromCart\<close>, whatever the request and whatever the response; the cart is the one
  of any user \<open>v\<close>, the requesting one or another.
\<close>

theorem cart_operations_preserve_uniqueness:
  assumes "cartInvariant d v"
  shows "cartInvariant (fst (addToCart cast coerce users categories d u b)) v
       \<and> cartInvariant (fst (updateCart cast coerce d u b')) v
       \<and> cartInvariant (fst (removeFromCart cast d u s)) v"
  using assms
  by (simp add: addToCart_invariant updateCart_invariant removeFromCart_invariant)

lemma shop_cart7:
  "cartDocs shop 7 = Some [\<lparr>product = 11, quantity = 2\<rparr>, \<lparr>product = 12, quantity = 1\<rparr>]"
  by (simp add: shop_def)

lemma shop_products: "findById shop 11 = Some shoe" "findById shop 12 = Some hat"
  "findById shop 13 = None"
  by (simp_all add: findById_def shop_def shoe_def hat_def)

lemma validate_p1_3: "cartItemSchema_validate coerce0 (payload ''p1'' 3) = Inr (''p1'', 3)"
  by (rule validate_payload) (simp_all add: is_integer_numeral safe_small)

lemma validate_p3_1: "cartItemSchema_validate coerce0 (payload ''p3'' 1) = Inr (''p3'', 1)"
  by (rule validate_payload) (simp_all add: is_integer_numeral safe_small)

lemma validate_p2_4: "cartItemSchema_validate coerce0 (payload ''p2'' 4) = Inr (''p2'', 4)"
  by (rule validate_payload) (simp_all add: is_integer_numeral safe_small)

lemma cast0_values: "cast0 ''p1'' = Some 11" "cast0 ''p2'' = Some 12" "cast0 ''p3'' = Some 13"
  "cast0 ''u7'' = Some 7" "cast0 ''u8'' = Some 8" "cast0 ''c20'' = Some 20" "cast0 ''zz'' = None"
  by (simp_all add: cast0_def)

lemma shoe_fields: "pid shoe = 11" "category shoe = 20" "name shoe = ''Shoe''"
  by (simp_all add: shoe_def)

lemma hat_fields: "pid hat = 12" "category hat = 21" "name hat = ''Hat''"
  by (simp_all add: hat_def)

lemma users0_values: "users0 7 = Some ''Ada''" "users0 8 = Some ''Bo''"
  by (simp_all add: users0_def)

lemma categories0_values: "categories0 20 = Some ''Footwear''" "categories0 21 = Some ''Headwear''"
  by (simp_all add: categories0_def)

lemma shop_populated:
  "populateItems categories0 shop [\<lparr>product = 11, quantity = q\<rparr>, \<lparr>product = 12, quantity = r\<rparr>]
     = [(\<lparr>product = 11, quantity = q\<rparr>, Some (shoe, Some ''Footwear'')),
        (\<lparr>product = 12, quantity = r\<rparr>, Some (hat, Some ''Headwear''))]"
  by (simp add: populateItems_def shop_products shoe_fields hat_fields categories0_values)

lemma js_add_2_3: "js_add 2 3 = 5"
  by code_simp

lemma shop_merge:
  "addToCart cast0 coerce0 users0 categories0 shop 7 (payload ''p1'' 3) =
     (save shop 7 [\<lparr>product = 11, quantity = 5\<rparr>, \<lparr>product = 12, quantity = 1\<rparr>],
      Ok \<lparr>user = Populated (Some ''Ada''),
          items = [\<lparr>product = Populated (Some (shoe, Some ''Footwear'')), quantity = 5\<rparr>,
                   \<lparr>product = Populated (Some (hat, Some ''Headwear'')), quantity = 1\<rparr>]\<rparr>)"
  by (simp add: addToCart_def validate_p1_3 shop_cart7 shop_populated populatedEquals_def
      equalsId_def cast0_values shoe_fields hat_fields Let_def js_add_2_3 populatedView_def
      users0_values)

lemma shop_append:
  "addToCart cast0 coerce0 users0 categories0 shop 7 (payload ''p3'' 1) =
     (save shop 7 [\<lparr>product = 11, quantity = 2\<rparr>, \<lparr>product = 12, quantity = 1\<rparr>,
                   \<lparr>product = 13, quantity = 1\<rparr>],
      Ok \<lparr>user = Populated (Some ''Ada''),
          items = [\<lparr>product = Populated (Some (shoe, Some ''Footwear'')), quantity = 2\<rparr>,
                   \<lparr>product = Populated (Some (hat, Some ''Headwear'')), quantity = 1\<rparr>,
                   \<lparr>product = Id 13, quantity = 1\<rparr>]\<rparr>)"
  by (simp add: addToCart_def validate_p3_1 shop_cart7 shop_populated populatedEquals_def
      equalsId_def cast0_values shoe_fields hat_fields populatedView_def users0_values)

lemma shop_update:
  "updateCart cast0 coerce0 shop 7 (payload ''p2'' 4) =
     (save shop 7 [\<lparr>product = 11, quantity = 2\<rparr>, \<lparr>product = 12, quantity = 4\<rparr>],
      Ok \<lparr>user = 7, items = [\<lparr>product = 11, quantity = 2\<rparr>, \<lparr>product = 12, quantity = 4\<rparr>]\<rparr>)"
  by (simp add: updateCart_def validate_p2_4 shop_cart7 itemEquals_def equalsId_def
      cast0_values Let_def)

theorem cart_operations_preserve_uniqueness_witness:
  "cartInvariant shop 7
   \<and> cartDocs (fst (addToCart cast0 coerce0 users0 categories0 shop 7 (payload ''p3'' 1))) 7
       = Some [\<lparr>product = 11, quantity = 2\<rparr>, \<lparr>product = 12, quantity = 1\<rparr>,
               \<lparr>product = 13, quantity = 1\<rparr>]
   \<and> cartInvariant (fst (addToCart cast0 coerce0 users0 categories0 shop 7 (payload ''p3'' 1))) 7
   \<and> cartDocs (fst (updateCart cast0 coerce0 shop 7 (payload ''p2'' 4))) 7
       = Some [\<lparr>product = 11, quantity = 2\<rparr>, \<lparr>product = 12, quantity = 4\<rparr>]
   \<and> cartInvariant (fst (updateCart cast0 coerce0 shop 7 (payload ''p2'' 4))) 7
   \<and> cartInvariant (fst (removeFromCart cast0 shop 7 ''p1'')) 7"
proof -
  have inv: "cartInvariant shop 7"
    by (simp add: cartInvariant_def shop_cart7 uniqueProducts_def)
  from cart_operations_preserve_uniqueness [OF inv, of cast0 coerce0 users0 categories0 7 "payload ''p3'' 1"
      "payload ''p2'' 4" "''p1''"]
  show ?thesis using inv by (simp add: shop_append shop_update cartDocs_save)
qed

section \<open>Setting a quantity\<close>

text \<open>
  C3. For a payload that passes the contract, with product \<open>P\<close> and quantity \<open>q\<close>:
  without a cart \<open>updateCart\<close> answers the 404 "Cart not found", with a cart that has no
  item for \<open>P\<close> the 404 "Item not found in cart", and in both cases the store is as before;
  otherwise the item for \<open>P\<close> (the first one the cart holds) gets the quantity \<open>q\<close>,
  whatever it had, every other item stays, and the cart is stored and answered.
\<close>

theorem updateCart_sets_quantity:
  assumes "cartItemSchema_validate coerce b = Inr (p, q)" and "cast p = Some P"
  shows "(cartDocs d u = None \<longrightarrow>
            updateCart cast coerce d u b = (d, NotFound ''Cart not found''))
       \<and> (\<forall>its. cartDocs d u = Some its \<and> (\<forall>it\<in>set its. product it \<noteq> P) \<longrightarrow>
            updateCart cast coerce d u b = (d, NotFound ''Item not found in cart''))
       \<and> (\<forall>its k. cartDocs d u = Some its \<and> k < length its \<and> product (its ! k) = P
              \<and> (\<forall>j<k. product (its ! j) \<noteq> P) \<longrightarrow>
            (case updateCart cast coerce d u b of (d', r) \<Rightarrow>
               r = Ok \<lparr>user = u, items = its[k := \<lparr>product = P, quantity = q\<rparr>]\<rparr>
             \<and> cartDocs d' u = Some (its[k := \<lparr>product = P, quantity = q\<rparr>])
             \<and> (\<forall>v. v \<noteq> u \<longrightarrow> cartDocs d' v = cartDocs d v)
             \<and> productDocs d' = productDocs d))"
proof (intro conjI allI impI)
  assume "cartDocs d u = None"
  with assms show "updateCart cast coerce d u b = (d, NotFound ''Cart not found'')"
    by (simp add: updateCart_def)
next
  fix its
  assume a: "cartDocs d u = Some its \<and> (\<forall>it\<in>set its. product it \<noteq> P)"
  then have "\<forall>it\<in>set its. cast p \<noteq> Some (product it)" using assms(2) by auto
  then have "js_find (itemEquals cast p) its = Inr None" by (rule plain_NoneI)
  with a assms show "updateCart cast coerce d u b = (d, NotFound ''Item not found in cart'')"
    by (simp add: updateCart_def)
next
  fix its k
  assume a: "cartDocs d u = Some its \<and> k < length its \<and> product (its ! k) = P
      \<and> (\<forall>j<k. product (its ! j) \<noteq> P)"
  have found: "js_find (itemEquals cast p) its = Inr (Some k)"
    by (rule plain_SomeI) (use a assms(2) in auto)
  have item: "(its ! k)\<lparr>quantity := q\<rparr> = \<lparr>product = P, quantity = q\<rparr>"
    using a by simp
  have "updateCart cast coerce d u b
      = (save d u (its[k := (its ! k)\<lparr>quantity := q\<rparr>]),
         Ok \<lparr>user = u, items = its[k := (its ! k)\<lparr>quantity := q\<rparr>]\<rparr>)"
    using a assms(1) found by (simp add: updateCart_def Let_def)
  then have "updateCart cast coerce d u b
      = (save d u (its[k := \<lparr>product = P, quantity = q\<rparr>]),
         Ok \<lparr>user = u, items = its[k := \<lparr>product = P, quantity = q\<rparr>]\<rparr>)"
    unfolding item .
  then show "case updateCart cast coerce d u b of (d', r) \<Rightarrow>
               r = Ok \<lparr>user = u, items = its[k := \<lparr>product = P, quantity = q\<rparr>]\<rparr>
             \<and> cartDocs d' u = Some (its[k := \<lparr>product = P, quantity = q\<rparr>])
             \<and> (\<forall>v. v \<noteq> u \<longrightarrow> cartDocs d' v = cartDocs d v)
             \<and> productDocs d' = productDocs d"
    by (simp add: cartDocs_save productDocs_save)
qed

theorem updateCart_sets_quantity_witness:
  "cartItemSchema_validate coerce0 (payload ''p2'' 4) = Inr (''p2'', 4)
   \<and> cast0 ''p2'' = Some 12
   \<and> cartDocs shop 8 = None
   \<and> updateCart cast0 coerce0 shop 8 (payload ''p2'' 4) = (shop, NotFound ''Cart not found'')
   \<and> cartDocs (save shop 8 [\<lparr>product = 11, quantity = 6\<rparr>]) 8 = Some [\<lparr>product = 11, quantity = 6\<rparr>]
   \<and> updateCart cast0 coerce0 (save shop 8 [\<lparr>product = 11, quantity = 6\<rparr>]) 8 (payload ''p2'' 4)
       = (save shop 8 [\<lparr>product = 11, quantity = 6\<rparr>], NotFound ''Item not found in cart'')
   \<and> cartDocs shop 7 = Some [\<lparr>product = 11, quantity = 2\<rparr>, \<lparr>product = 12, quantity = 1\<rparr>]
   \<and> snd (updateCart cast0 coerce0 shop 7 (payload ''p2'' 4))
       = Ok \<lparr>user = 7, items = [\<lparr>product = 11, quantity = 2\<rparr>, \<lparr>product = 12, quantity = 4\<rparr>]\<rparr>
   \<and> cartDocs (fst (updateCart cast0 coerce0 shop 7 (payload ''p2'' 4))) 7
       = Some [\<lparr>product = 11, quantity = 2\<rparr>, \<lparr>product = 12, quantity = 4\<rparr>]"
proof -
  note t = updateCart_sets_quantity [where cast = cast0 and P = 12, OF validate_p2_4 cast0_values(2)]
  have none: "cartDocs shop 8 = None" by (simp add: shop_def)
  have one: "cartDocs (save shop 8 [\<lparr>product = 11, quantity = 6\<rparr>]) 8
      = Some [\<lparr>product = 11, quantity = 6\<rparr>]"
    by (simp add: cartDocs_save)
  from t [of shop 8, THEN conjunct1] none
  have r1: "updateCart cast0 coerce0 shop 8 (payload ''p2'' 4) = (shop, NotFound ''Cart not found'')"
    by simp
  from t [of "save shop 8 [\<lparr>product = 11, quantity = 6\<rparr>]" 8, THEN conjunct2, THEN conjunct1,
      THEN spec, of "[\<lparr>product = 11, quantity = 6\<rparr>]"] one
  have r2: "updateCart cast0 coerce0 (save shop 8 [\<lparr>product = 11, quantity = 6\<rparr>]) 8 (payload ''p2'' 4)
       = (save shop 8 [\<lparr>product = 11, quantity = 6\<rparr>], NotFound ''Item not found in cart'')"
    by simp
  from t [of shop 7, THEN conjunct2, THEN conjunct2, THEN spec, THEN spec,
      of "[\<lparr>product = 11, quantity = 2\<rparr>, \<lparr>product = 12, quantity = 1\<rparr>]" "Suc 0"]
  have r3: "snd (updateCart cast0 coerce0 shop 7 (payload ''p2'' 4))
       = Ok \<lparr>user = 7, items = [\<lparr>product = 11, quantity = 2\<rparr>, \<lparr>product = 12, quantity = 4\<rparr>]\<rparr>
   \<and> cartDocs (fst (updateCart cast0 coerce0 shop 7 (payload ''p2'' 4))) 7
       = Some [\<lparr>product = 11, quantity = 2\<rparr>, \<lparr>product = 12, quantity = 4\<rparr>]"
    by (simp add: shop_cart7 split: prod.splits)
  show ?thesis
    using r1 r2 r3 none one validate_p2_4 cast0_values(2) shop_cart7 by simp
qed

section \<open>Replacing all items\<close>

lemma castItems_total:
  "\<forall>x\<in>set raw. cast (fst x) \<noteq> None \<Longrightarrow>
     \<exists>its'. castItems cast raw = Some its' \<and> length its' = length raw
       \<and> (\<forall>k<length raw. cast (fst (raw ! k)) = Some (product (its' ! k))
             \<and> quantity (its' ! k) = snd (raw ! k))"
proof (induction raw)
  case Nil
  then show ?case by simp
next
  case (Cons x raw)
  obtain p q where x: "x = (p, q)" by (cases x)
  from Cons.prems x obtain i where i: "cast p = Some i" by auto
  from Cons obtain its' where its': "castItems cast raw = Some its'" "length its' = length raw"
    "\<forall>k<length raw. cast (fst (raw ! k)) = Some (product (its' ! k))
         \<and> quantity (its' ! k) = snd (raw ! k)"
    by auto
  have "\<forall>k<length (x # raw). cast (fst ((x # raw) ! k))
          = Some (product ((\<lparr>product = i, quantity = q\<rparr> # its') ! k))
        \<and> quantity ((\<lparr>product = i, quantity = q\<rparr> # its') ! k) = snd ((x # raw) ! k)"
  proof (intro allI impI)
    fix k assume "k < length (x # raw)"
    then show "cast (fst ((x # raw) ! k))
          = Some (product ((\<lparr>product = i, quantity = q\<rparr> # its') ! k))
        \<and> quantity ((\<lparr>product = i, quantity = q\<rparr> # its') ! k) = snd ((x # raw) ! k)"
      using its'(3) i x by (cases k) auto
  qed
  with its'(1,2) i x show ?case by simp
qed

text \<open>
  C9. When the user id and the product ids of the supplied items are ObjectIds,
  \<open>updateCartForUser\<close> makes exactly one write on the Cart collection, a
  \<open>findOneAndUpdate\<close> with \<open>upsert\<close>, and after it the supplied items are the whole item
  sequence of that user's cart, whether the user had a cart or not: item by item the
  supplied product and quantity, in the supplied order, with no merging of equal products
  and no check of the quantities. No other cart and no product changes. The answer is
  that cart, each item with its quantity and with the product document of its id,
  \<open>null\<close> when the catalog has none.
\<close>

theorem updateCartForUser_overwrites:
  assumes "cast userId = Some u" and "\<forall>x\<in>set raw. cast (fst x) \<noteq> None"
  shows "\<exists>its'. fst (snd (updateCartForUser cast d userId raw)) = [FindOneAndUpdateUpsert u its']
           \<and> fst (updateCartForUser cast d userId raw) = perform d (FindOneAndUpdateUpsert u its')
           \<and> cartDocs (fst (updateCartForUser cast d userId raw)) u = Some its'
           \<and> (\<forall>v. v \<noteq> u \<longrightarrow> cartDocs (fst (updateCartForUser cast d userId raw)) v = cartDocs d v)
           \<and> productDocs (fst (updateCartForUser cast d userId raw)) = productDocs d
           \<and> length its' = length raw
           \<and> (\<forall>k<length raw. cast (fst (raw ! k)) = Some (product (its' ! k))
                 \<and> quantity (its' ! k) = snd (raw ! k))
           \<and> snd (snd (updateCartForUser cast d userId raw))
               = Ok \<lparr>user = u,
                     items = map (\<lambda>it. \<lparr>product = findById d (product it),
                                          quantity = quantity it\<rparr>) its'\<rparr>"
proof -
  from castItems_total [OF assms(2)]
  obtain its' where its': "castItems cast raw = Some its'" "length its' = length raw"
    "\<forall>k<length raw. cast (fst (raw ! k)) = Some (product (its' ! k))
         \<and> quantity (its' ! k) = snd (raw ! k)"
    by blast
  have same: "findById (save d u its') = findById d"
    by (rule ext) (simp add: findById_def productDocs_save)
  have "updateCartForUser cast d userId raw
      = (save d u its', [FindOneAndUpdateUpsert u its'],
         Ok \<lparr>user = u, items = map (\<lambda>it. \<lparr>product = findById d (product it),
                                              quantity = quantity it\<rparr>) its'\<rparr>)"
    using assms(1) its'(1) by (simp add: updateCartForUser_def Let_def same)
  with its'(2,3) show ?thesis
    by (intro exI [of _ its']) (simp add: cartDocs_save productDocs_save)
qed

theorem updateCartForUser_overwrites_witness:
  "cast0 ''u7'' = Some 7 \<and> cast0 ''u8'' = Some 8
   \<and> cast0 ''p1'' = Some 11 \<and> cast0 ''p2'' = Some 12 \<and> cast0 ''p3'' = Some 13
   \<and> cartDocs shop 7 = Some [\<lparr>product = 11, quantity = 2\<rparr>, \<lparr>product = 12, quantity = 1\<rparr>]
   \<and> updateCartForUser cast0 shop ''u7'' [(''p1'', 1), (''p3'', - 5), (''p1'', 1 / 2)]
       = (save shop 7 [\<lparr>product = 11, quantity = 1\<rparr>, \<lparr>product = 13, quantity = - 5\<rparr>,
                       \<lparr>product = 11, quantity = 1 / 2\<rparr>],
          [FindOneAndUpdateUpsert 7 [\<lparr>product = 11, quantity = 1\<rparr>, \<lparr>product = 13, quantity = - 5\<rparr>,
                                     \<lparr>product = 11, quantity = 1 / 2\<rparr>]],
          Ok \<lparr>user = 7, items = [\<lparr>product = Some shoe, quantity = 1\<rparr>,
                                 \<lparr>product = None, quantity = - 5\<rparr>,
                                 \<lparr>product = Some shoe, quantity = 1 / 2\<rparr>]\<rparr>)
   \<and> cartDocs shop 8 = None
   \<and> cartDocs (fst (updateCartForUser cast0 shop ''u8'' [(''p2'', 3)])) 8
       = Some [\<lparr>product = 12, quantity = 3\<rparr>]"
proof -
  have raw: "\<forall>x\<in>set [(''p1'', 1::rat), (''p3'', - 5), (''p1'', 1 / 2)]. cast0 (fst x) \<noteq> None"
    and raw': "\<forall>x\<in>set [(''p2'', 3::rat)]. cast0 (fst x) \<noteq> None"
    by (simp_all add: cast0_values)
  have same: "\<And>its. findById (save shop 7 its) = findById shop"
    by (rule ext) (simp add: findById_def productDocs_save)
  have none: "cartDocs shop 8 = None" by (simp add: shop_def)
  from updateCartForUser_overwrites [OF cast0_values(4) raw, of shop]
  have r1: "updateCartForUser cast0 shop ''u7'' [(''p1'', 1), (''p3'', - 5), (''p1'', 1 / 2)]
       = (save shop 7 [\<lparr>product = 11, quantity = 1\<rparr>, \<lparr>product = 13, quantity = - 5\<rparr>,
                       \<lparr>product = 11, quantity = 1 / 2\<rparr>],
          [FindOneAndUpdateUpsert 7 [\<lparr>product = 11, quantity = 1\<rparr>, \<lparr>product = 13, quantity = - 5\<rparr>,
                                     \<lparr>product = 11, quantity = 1 / 2\<rparr>]],
          Ok \<lparr>user = 7, items = [\<lparr>product = Some shoe, quantity = 1\<rparr>,
                                 \<lparr>product = None, quantity = - 5\<rparr>,
                                 \<lparr>product = Some shoe, quantity = 1 / 2\<rparr>]\<rparr>)"
    by (simp add: updateCartForUser_def cast0_values Let_def same shop_products)
  from updateCartForUser_overwrites [OF cast0_values(5) raw', of shop]
  have r2: "cartDocs (fst (updateCartForUser cast0 shop ''u8'' [(''p2'', 3)])) 8
       = Some [\<lparr>product = 12, quantity = 3\<rparr>]"
    by (simp add: updateCartForUser_def cast0_values Let_def cartDocs_save)
  show ?thesis
    using cast0_values(4,5,1,2,3) shop_cart7 r1 none r2 by (intro conjI)
qed

section \<open>Quantities under the handlers\<close>

lemma is_integer_iff: "is_integer q \<longleftrightarrow> (\<exists>n. q = rat_of_int n)"
  by (simp add: is_integer_def of_int_floor_cancel)

lemma positiveInteger_iff: "positiveInteger q \<longleftrightarrow> (\<exists>n>0. q = rat_of_int n)"
  by (auto simp: positiveInteger_def is_integer_iff)

lemma positiveInteger_js_add:
  assumes "positiveInteger a" and "positiveInteger b"
  shows "positiveInteger (js_add a b)"
proof -
  from assms obtain i j where "i > 0" "a = of_int i" "j > 0" "b = of_int j"
    unfolding positiveInteger_iff by blast
  then have "a + b = of_int (i + j)" "i + j > 0" by simp_all
  with toDouble_positive [of "i + j"] show ?thesis
    unfolding positiveInteger_iff js_add_def by simp
qed


lemma validate_positive:
  "cartItemSchema_validate coerce b = Inr (p, q) \<Longrightarrow> positiveInteger q"
  using validate_InrD(4,5) [of coerce b p q] by (simp add: positiveInteger_def)

lemma quantitiesValid_save:
  "quantitiesValid (save d u its) v
     = (if v = u then list_all (\<lambda>it. positiveInteger (quantity it)) its else quantitiesValid d v)"
  by (simp add: quantitiesValid_def save_def)

lemma list_all_update:
  "list_all Q xs \<Longrightarrow> Q x \<Longrightarrow> list_all Q (xs[k := x])"
  by (auto simp: list_all_iff dest: set_update_subset_insert [THEN subsetD])

lemma addToCart_quantities:
  assumes "quantitiesValid d v"
  shows "quantitiesValid (fst (addToCart cast coerce users categories d u b)) v"
proof (cases "cartItemSchema_validate coerce b")
  case (Inl es)
  with assms show ?thesis by (simp add: addToCart_def)
next
  case (Inr pq)
  obtain p q where pq: "pq = (p, q)" by (cases pq)
  from Inr pq have q: "positiveInteger q" by (simp add: validate_positive)
  show ?thesis
  proof (cases "cartDocs d u")
    case None
    with Inr pq assms q show ?thesis
      by (auto simp: addToCart_def quantitiesValid_save split: option.splits)
  next
    case (Some its)
    have valid: "v = u \<Longrightarrow> list_all (\<lambda>it. positiveInteger (quantity it)) its"
      using assms Some by (simp add: quantitiesValid_def)
    show ?thesis
    proof (cases "js_find (populatedEquals cast p) (populateItems categories d its)")
      case (Inl e)
      with Inr pq Some assms show ?thesis by (simp add: addToCart_def)
    next
      case found: (Inr r)
      show ?thesis
      proof (cases r)
        case None
        with Inr pq Some found assms q valid show ?thesis
          by (auto simp: addToCart_def quantitiesValid_save split: option.splits)
      next
        case sk: (Some k)
        from populated_SomeD(1) [OF found [unfolded sk]] have k: "k < length its" .
        have "v = u \<Longrightarrow> list_all (\<lambda>it. positiveInteger (quantity it))
            (its[k := (its ! k)\<lparr>quantity := js_add (quantity (its ! k)) q\<rparr>])"
        proof -
          assume "v = u"
          from valid [OF this] k have "positiveInteger (quantity (its ! k))"
            by (simp add: list_all_length)
          with q have "positiveInteger (js_add (quantity (its ! k)) q)"
            by (simp add: positiveInteger_js_add)
          with valid [OF \<open>v = u\<close>] show ?thesis by (intro list_all_update) simp_all
        qed
        with Inr pq Some found sk assms show ?thesis
          by (simp add: addToCart_def quantitiesValid_save Let_def)
      qed
    qed
  qed
qed

lemma updateCart_quantities:
  assumes "quantitiesValid d v"
  shows "quantitiesValid (fst (updateCart cast coerce d u b)) v"
proof (cases "cartItemSchema_validate coerce b")
  case (Inl es)
  with assms show ?thesis by (simp add: updateCart_def)
next
  case (Inr pq)
  obtain p q where pq: "pq = (p, q)" by (cases pq)
  from Inr pq have q: "positiveInteger q" by (simp add: validate_positive)
  show ?thesis
  proof (cases "cartDocs d u")
    case None
    with Inr pq assms show ?thesis by (simp add: updateCart_def)
  next
    case (Some its)
    have valid: "v = u \<Longrightarrow> list_all (\<lambda>it. positiveInteger (quantity it)) its"
      using assms Some by (simp add: quantitiesValid_def)
    show ?thesis
    proof (cases "js_find (itemEquals cast p) its")
      case (Inl e)
      with Inr pq Some assms show ?thesis by (simp add: updateCart_def)
    next
      case found: (Inr r)
      show ?thesis
      proof (cases r)
        case None
        with Inr pq Some found assms show ?thesis by (simp add: updateCart_def)
      next
        case sk: (Some k)
        from valid q have "v = u \<Longrightarrow> list_all (\<lambda>it. positiveInteger (quantity it))
            (its[k := (its ! k)\<lparr>quantity := q\<rparr>])"
          by (intro list_all_update) simp_all
        with Inr pq Some found sk assms show ?thesis
          by (simp add: updateCart_def quantitiesValid_save Let_def)
      qed
    qed
  qed
qed

lemma removeFromCart_quantities:
  assumes "quantitiesValid d v"
  shows "quantitiesValid (fst (removeFromCart cast d u s)) v"
proof (cases "cartDocs d u")
  case None
  with assms show ?thesis by (simp add: removeFromCart_def)
next
  case (Some its)
  have "v = u \<Longrightarrow> list_all (\<lambda>it. positiveInteger (quantity it)) its"
    using assms Some by (simp add: quantitiesValid_def)
  then have "v = u \<Longrightarrow> list_all (\<lambda>it. positiveInteger (quantity it))
      (filter (\<lambda>item. \<not> equalsId cast (product item) s) its)"
    by (simp add: list_all_iff)
  with Some assms show ?thesis
    by (simp add: removeFromCart_def quantitiesValid_save Let_def)
qed

section \<open>The product handlers and the carts\<close>

lemma createProduct_carts: "cartDocs (fst (createProduct cast coerce d fresh b)) = cartDocs d"
  by (simp add: createProduct_def Let_def split: sum.splits option.splits)

lemma updateProduct_carts: "cartDocs (fst (updateProduct cast coerce d productId b)) = cartDocs d"
  by (simp add: updateProduct_def Let_def split: sum.splits option.splits prod.splits)

lemma deleteProduct_carts: "cartDocs (fst (deleteProduct cast d productId)) = cartDocs d"
  by (simp add: deleteProduct_def split: option.splits)

lemma quantitiesValid_carts: "cartDocs d' = cartDocs d \<Longrightarrow> quantitiesValid d' v = quantitiesValid d v"
  by (simp add: quantitiesValid_def)

lemma cartInvariant_carts: "cartDocs d' = cartDocs d \<Longrightarrow> cartInvariant d' v = cartInvariant d v"
  by (simp add: cartInvariant_def)

section \<open>Every store that the requests reach\<close>

lemma handle_quantities:
  "quantitiesValid d v \<Longrightarrow> quantitiesValid (handle cast coerce users categories d r) v"
  by (cases r)
    (simp_all add: addToCart_quantities updateCart_quantities removeFromCart_quantities
      quantitiesValid_carts [OF createProduct_carts] quantitiesValid_carts [OF updateProduct_carts]
      quantitiesValid_carts [OF deleteProduct_carts])

lemma handle_invariant:
  "cartInvariant d v \<Longrightarrow> cartInvariant (handle cast coerce users categories d r) v"
  by (cases r)
    (simp_all add: addToCart_invariant updateCart_invariant removeFromCart_invariant
      cartInvariant_carts [OF createProduct_carts] cartInvariant_carts [OF updateProduct_carts]
      cartInvariant_carts [OF deleteProduct_carts])

lemma run_quantities:
  "quantitiesValid d v \<Longrightarrow> quantitiesValid (run cast coerce users categories d rs) v"
  unfolding run_def by (induction rs arbitrary: d) (simp_all add: handle_quantities)

lemma run_invariant:
  "cartInvariant d v \<Longrightarrow> cartInvariant (run cast coerce users categories d rs) v"
  unfolding run_def by (induction rs arbitrary: d) (simp_all add: handle_invariant)

lemma no_carts_valid:
  "\<forall>v. cartDocs d v = None \<Longrightarrow> quantitiesValid d v \<and> cartInvariant d v"
  by (simp add: quantitiesValid_def cartInvariant_def)

lemma reached_valid:
  assumes "\<forall>v. cartDocs d0 v = None"
  shows "quantitiesValid (run cast coerce users categories d0 rs) v"
    and "cartInvariant (run cast coerce users categories d0 rs) v"
  using no_carts_valid [OF assms, of v] by (simp_all add: run_quantities run_invariant)

section \<open>Adding to an item that the cart holds\<close>







lemma validate_p1_2: "cartItemSchema_validate coerce0 (payload ''p1'' 2) = Inr (''p1'', 2)"
  by (rule validate_payload) (simp_all add: is_integer_numeral safe_small)


lemma validate_p2_1: "cartItemSchema_validate coerce0 (payload ''p2'' 1) = Inr (''p2'', 1)"
  by (rule validate_payload) (simp_all add: is_integer_numeral safe_small)

lemma validate_p2_3: "cartItemSchema_validate coerce0 (payload ''p2'' 3) = Inr (''p2'', 3)"
  by (rule validate_payload) (simp_all add: is_integer_numeral safe_small)


lemma emptyShop_products: "findById (save emptyShop u its) 11 = Some shoe"
  "findById (save emptyShop u its) 12 = Some hat"
  by (simp_all add: findById_def productDocs_save emptyShop_def shoe_fields hat_fields)

lemma shop_reached: "run cast0 coerce0 users0 categories0 emptyShop shopRequests = shop"
proof -
  have first: "handle cast0 coerce0 users0 categories0 emptyShop (AddToCart 7 (payload ''p1'' 2))
      = save emptyShop 7 [\<lparr>product = 11, quantity = 2\<rparr>]"
    by (simp add: addToCart_def validate_p1_2 emptyShop_def cast0_values)
  have second: "handle cast0 coerce0 users0 categories0 (save emptyShop 7 [\<lparr>product = 11, quantity = 2\<rparr>])
        (AddToCart 7 (payload ''p2'' 1))
      = save (save emptyShop 7 [\<lparr>product = 11, quantity = 2\<rparr>]) 7
          [\<lparr>product = 11, quantity = 2\<rparr>, \<lparr>product = 12, quantity = 1\<rparr>]"
    by (simp add: addToCart_def validate_p2_1 cartDocs_save populateItems_def emptyShop_products
        populatedEquals_def equalsId_def cast0_values shoe_fields)
  have "save (save emptyShop 7 [\<lparr>product = 11, quantity = 2\<rparr>]) 7
          [\<lparr>product = 11, quantity = 2\<rparr>, \<lparr>product = 12, quantity = 1\<rparr>] = shop"
    by (simp add: save_def emptyShop_def shop_def)
  with first second show ?thesis by (simp add: run_def shopRequests_def)
qed









lemma dangling_cart7:
  "cartDocs dangling 7 = Some [\<lparr>product = 11, quantity = 2\<rparr>, \<lparr>product = 12, quantity = 1\<rparr>]"
  by (simp add: dangling_def deleteProduct_def cast0_values shop_products shop_cart7)

lemma dangling_products: "findById dangling 11 = None" "findById dangling 12 = Some hat"
  by (simp_all add: dangling_def deleteProduct_def cast0_values shop_products)
    (simp_all add: findById_def shop_def shoe_fields hat_fields)

text \<open>
  The search of \<open>addToCart\<close> runs over the populated items: when it reaches an item whose
  product no longer exists before it has found the product of the payload, it throws, and
  the handler stores nothing. \<open>updateCart\<close> and \<open>removeFromCart\<close> search the stored
  references and do not fail there.
\<close>

lemma addToCart_dangling_reference:
  assumes valid: "cartItemSchema_validate coerce b = Inr (p, q)"
    and cart: "cartDocs d u = Some (us @ x # vs)"
    and before: "\<forall>a\<in>set us. findById d (product a) \<noteq> None \<and> cast p \<noteq> Some (product a)"
    and gone: "findById d (product x) = None"
  shows "addToCart cast coerce users categories d u b = (d, Threw TypeError)"
proof -
  have pop: "populateItems categories d (us @ x # vs)
      = populateItems categories d us @ (x, None) # populateItems categories d vs"
    by (simp add: populateItems_def gone)
  have miss: "\<forall>a\<in>set (populateItems categories d us). populatedEquals cast p a = Inr False"
  proof
    fix a assume "a \<in> set (populateItems categories d us)"
    from populatedEquals_element [OF this, of cast p]
    obtain it where "it \<in> set us" "populatedEquals cast p a
           = (if findById d (product it) = None then Inl TypeError
              else Inr (cast p = Some (product it)))"
      by blast
    with before show "populatedEquals cast p a = Inr False" by auto
  qed
  have "populatedEquals cast p (x, None) = Inl TypeError"
    by (rule populatedEquals_dangling)
  with miss have "js_find (populatedEquals cast p) (populateItems categories d (us @ x # vs))
      = Inl TypeError"
    unfolding pop by (rule js_find_throw)
  with valid cart show ?thesis by (simp add: addToCart_def)
qed

lemma dangling_throws:
  "addToCart cast0 coerce0 users0 categories0 dangling 7 (payload ''p2'' 3) = (dangling, Threw TypeError)"
proof -
  have cart: "cartDocs dangling 7
      = Some ([] @ \<lparr>product = 11, quantity = 2\<rparr> # [\<lparr>product = 12, quantity = 1\<rparr>])"
    by (simp add: dangling_cart7)
  show ?thesis
    by (rule addToCart_dangling_reference [OF validate_p2_3 cart])
      (simp_all add: dangling_products)
qed

section \<open>Validation of the cart payload\<close>

lemma validate_Inl:
  "cartItemSchema_validate coerce b = Inl es \<Longrightarrow> es = cartItemSchema_errors coerce b"
  by (auto simp: cartItemSchema_validate_def split: sum.splits if_splits)

lemma missing_product_errors:
  "field b ''product'' = None \<Longrightarrow> ''Product ID is required'' \<in> set (cartItemSchema_errors coerce b)"
  by (simp add: cartItemSchema_errors_def cartItem_product_def required_def errorsOf_def)

lemma missing_quantity_errors:
  "field b ''quantity'' = None \<Longrightarrow> ''Quantity is required'' \<in> set (cartItemSchema_errors coerce b)"
  by (simp add: cartItemSchema_errors_def cartItem_quantity_def required_def errorsOf_def)

lemma not_a_number_errors:
  "field b ''quantity'' = Some v \<Longrightarrow> toNumber coerce v = None
     \<Longrightarrow> ''Quantity must be a number'' \<in> set (cartItemSchema_errors coerce b)"
  by (simp add: cartItemSchema_errors_def cartItem_quantity_def required_def errorsOf_def
      joi_number_def)

lemma unsafe_errors:
  "field b ''quantity'' = Some v \<Longrightarrow> toNumber coerce v = Some q \<Longrightarrow> unsafe q
     \<Longrightarrow> quoted ''quantity'' @ '' must be a safe number'' \<in> set (cartItemSchema_errors coerce b)"
  by (simp add: cartItemSchema_errors_def cartItem_quantity_def required_def errorsOf_def
      joi_number_def)

lemma not_integer_errors:
  "field b ''quantity'' = Some v \<Longrightarrow> toNumber coerce v = Some q \<Longrightarrow> \<not> unsafe q
     \<Longrightarrow> \<not> is_integer q
     \<Longrightarrow> ''Quantity must be an integer'' \<in> set (cartItemSchema_errors coerce b)"
  by (simp add: cartItemSchema_errors_def cartItem_quantity_def required_def errorsOf_def
      joi_number_def integer_rule_def)

lemma not_positive_errors:
  "field b ''quantity'' = Some v \<Longrightarrow> toNumber coerce v = Some q \<Longrightarrow> \<not> unsafe q
     \<Longrightarrow> q \<le> 0
     \<Longrightarrow> ''Quantity must be positive'' \<in> set (cartItemSchema_errors coerce b)"
  by (simp add: cartItemSchema_errors_def cartItem_quantity_def required_def errorsOf_def
      joi_number_def positive_rule_def)

lemma rejected_errors:
  assumes "field b ''product'' = None \<or> badQuantity coerce b"
  shows "cartItemSchema_errors coerce b \<noteq> []"
proof (cases "field b ''product'' = None")
  case True
  from missing_product_errors [OF this, of coerce] show ?thesis by auto
next
  case False
  with assms have bad: "badQuantity coerce b" by simp
  show ?thesis
  proof (cases "field b ''quantity''")
    case None
    from missing_quantity_errors [OF this, of coerce] show ?thesis by auto
  next
    case (Some v)
    show ?thesis
    proof (cases "toNumber coerce v")
      case None
      from not_a_number_errors [OF Some this] show ?thesis by auto
    next
      case q: (Some q)
      with bad Some have npi: "\<not> positiveInteger q" by (simp add: badQuantity_def)
      show ?thesis
      proof (cases "unsafe q")
        case True
        from unsafe_errors [OF Some q this] show ?thesis by auto
      next
        case False
        from npi have "\<not> is_integer q \<or> q \<le> 0" by (auto simp: positiveInteger_def)
        then show ?thesis
          using not_integer_errors [OF Some q False] not_positive_errors [OF Some q False]
          by auto
      qed
    qed
  qed
qed

lemma rejected_validate:
  assumes "cartItemSchema_errors coerce b \<noteq> []"
  shows "cartItemSchema_validate coerce b = Inl (cartItemSchema_errors coerce b)"
  using assms by (auto simp: cartItemSchema_validate_def split: sum.splits)

lemma quantity_populatedView:
  "map quantity (populatedView (populateItems categories d its)) = map quantity its"
  by (simp add: populatedView_def populateItems_def comp_def)

lemma addToCart_success:
  assumes "addToCart cast coerce users categories d u b = (d', Ok c)"
  shows "\<exists>its'. cartDocs d' u = Some its' \<and> map quantity (items c) = map quantity its'"
proof (cases "cartItemSchema_validate coerce b")
  case (Inl es)
  with assms show ?thesis by (simp add: addToCart_def)
next
  case (Inr pq)
  obtain p q where pq: "pq = (p, q)" by (cases pq)
  show ?thesis
  proof (cases "cartDocs d u")
    case None
    with Inr pq assms show ?thesis
      by (auto simp: addToCart_def cartDocs_save split: option.splits)
  next
    case (Some its)
    show ?thesis
    proof (cases "js_find (populatedEquals cast p) (populateItems categories d its)")
      case (Inl e)
      with Inr pq Some assms show ?thesis by (simp add: addToCart_def)
    next
      case found: (Inr r)
      show ?thesis
      proof (cases r)
        case None
        with Inr pq Some found assms show ?thesis
          by (auto simp: addToCart_def cartDocs_save quantity_populatedView split: option.splits)
      next
        case sk: (Some k)
        with Inr pq Some found assms show ?thesis
          by (auto simp: addToCart_def cartDocs_save quantity_populatedView Let_def)
      qed
    qed
  qed
qed

lemma updateCart_success:
  assumes "updateCart cast coerce d u b = (d', Ok c)"
  shows "cartDocs d' u = Some (items c)"
proof (cases "cartItemSchema_validate coerce b")
  case (Inl es)
  with assms show ?thesis by (simp add: updateCart_def)
next
  case (Inr pq)
  obtain p q where pq: "pq = (p, q)" by (cases pq)
  with Inr assms show ?thesis
    by (auto simp: updateCart_def cartDocs_save Let_def plain_not_Inl
        split: option.splits sum.splits)
qed

text \<open>
  C4. A payload without a product id, or whose quantity is missing, no number, not an
  integer or not positive, is refused by \<open>addToCart\<close> and by \<open>updateCart\<close> with the 400
  that lists all messages of the contract, the same for every store and user, and the
  store is returned as it was; the list holds the message of each of these violations.
  Consequently, in every store that requests to the exported handlers reach from a store
  without carts all quantities are positive integers, and so are the quantities of the
  cart that a successful add or update there stores and answers with.
\<close>

theorem cart_payload_validation:
  "(field b ''product'' = None \<or> badQuantity coerce b \<longrightarrow>
        cartItemSchema_errors coerce b \<noteq> []
      \<and> addToCart cast coerce users categories d u b
          = (d, BadRequest (cartItemSchema_errors coerce b))
      \<and> updateCart cast coerce d u b = (d, BadRequest (cartItemSchema_errors coerce b))
      \<and> (field b ''product'' = None \<longrightarrow>
            ''Product ID is required'' \<in> set (cartItemSchema_errors coerce b))
      \<and> (field b ''quantity'' = None \<longrightarrow>
            ''Quantity is required'' \<in> set (cartItemSchema_errors coerce b))
      \<and> (\<forall>v. field b ''quantity'' = Some v \<and> toNumber coerce v = None \<longrightarrow>
            ''Quantity must be a number'' \<in> set (cartItemSchema_errors coerce b))
      \<and> (\<forall>v q. field b ''quantity'' = Some v \<and> toNumber coerce v = Some q \<and> \<not> unsafe q \<longrightarrow>
            (\<not> is_integer q \<longrightarrow>
               ''Quantity must be an integer'' \<in> set (cartItemSchema_errors coerce b))
          \<and> (q \<le> 0 \<longrightarrow>
               ''Quantity must be positive'' \<in> set (cartItemSchema_errors coerce b))))
   \<and> ((\<forall>v. cartDocs d0 v = None) \<longrightarrow>
        (\<forall>v. quantitiesValid (run cast coerce users categories d0 rs) v)
      \<and> (\<forall>d' c. addToCart cast coerce users categories
                   (run cast coerce users categories d0 rs) u b = (d', Ok c) \<longrightarrow>
            (\<exists>its'. cartDocs d' u = Some its'
                 \<and> map quantity (items c) = map quantity its'
                 \<and> list_all positiveInteger (map quantity its')))
      \<and> (\<forall>d' c. updateCart cast coerce (run cast coerce users categories d0 rs) u b = (d', Ok c) \<longrightarrow>
            cartDocs d' u = Some (items c)
          \<and> list_all positiveInteger (map quantity (items c))))"
proof (intro conjI impI allI)
  assume bad: "field b ''product'' = None \<or> badQuantity coerce b"
  from rejected_errors [OF bad] show ne: "cartItemSchema_errors coerce b \<noteq> []" .
  from rejected_validate [OF ne]
  show "addToCart cast coerce users categories d u b
      = (d, BadRequest (cartItemSchema_errors coerce b))"
    and "updateCart cast coerce d u b = (d, BadRequest (cartItemSchema_errors coerce b))"
    by (simp_all add: addToCart_def updateCart_def)
next
  assume "field b ''product'' = None"
  then show "''Product ID is required'' \<in> set (cartItemSchema_errors coerce b)"
    by (rule missing_product_errors)
next
  assume "field b ''quantity'' = None"
  then show "''Quantity is required'' \<in> set (cartItemSchema_errors coerce b)"
    by (rule missing_quantity_errors)
next
  fix v assume "field b ''quantity'' = Some v \<and> toNumber coerce v = None"
  then show "''Quantity must be a number'' \<in> set (cartItemSchema_errors coerce b)"
    by (simp add: not_a_number_errors)
next
  fix v q
  assume a: "field b ''quantity'' = Some v \<and> toNumber coerce v = Some q \<and> \<not> unsafe q"
  {
    assume "\<not> is_integer q"
    with a show "''Quantity must be an integer'' \<in> set (cartItemSchema_errors coerce b)"
      by (simp add: not_integer_errors)
  }
  {
    assume "q \<le> 0"
    with a show "''Quantity must be positive'' \<in> set (cartItemSchema_errors coerce b)"
      by (simp add: not_positive_errors)
  }
next
  fix v assume "\<forall>v. cartDocs d0 v = None"
  then show "quantitiesValid (run cast coerce users categories d0 rs) v"
    by (rule reached_valid)
next
  fix d' c
  let ?d = "run cast coerce users categories d0 rs"
  assume start: "\<forall>v. cartDocs d0 v = None"
    and ok: "addToCart cast coerce users categories ?d u b = (d', Ok c)"
  from reached_valid(1) [OF start] have "quantitiesValid ?d u" .
  then have "quantitiesValid (fst (addToCart cast coerce users categories ?d u b)) u"
    by (rule addToCart_quantities)
  with ok have valid: "quantitiesValid d' u" by simp
  from addToCart_success [OF ok] obtain its' where its': "cartDocs d' u = Some its'"
    "map quantity (items c) = map quantity its'" by blast
  from valid its'(1) have "list_all positiveInteger (map quantity its')"
    by (simp add: quantitiesValid_def list_all_iff)
  with its' show "\<exists>its'. cartDocs d' u = Some its'
                 \<and> map quantity (items c) = map quantity its'
                 \<and> list_all positiveInteger (map quantity its')"
    by blast
next
  fix d' c
  let ?d = "run cast coerce users categories d0 rs"
  assume start: "\<forall>v. cartDocs d0 v = None"
    and ok: "updateCart cast coerce ?d u b = (d', Ok c)"
  from reached_valid(1) [OF start] have "quantitiesValid ?d u" .
  then have "quantitiesValid (fst (updateCart cast coerce ?d u b)) u"
    by (rule updateCart_quantities)
  with ok have valid: "quantitiesValid d' u" by simp
  from updateCart_success [OF ok] show stored: "cartDocs d' u = Some (items c)" .
  with valid show "list_all positiveInteger (map quantity (items c))"
    by (simp add: quantitiesValid_def list_all_iff)
qed

lemma three_halves_not_integer: "\<not> is_integer (- (3 / 2))"
proof -
  have "\<lfloor>- (3 / 2) :: rat\<rfloor> = - 2" by (rule floor_unique) simp_all
  then show ?thesis by (simp add: is_integer_def)
qed

lemma halves_errors:
  "cartItemSchema_errors coerce0 halves
     = [''Product ID is required'', ''Quantity must be an integer'', ''Quantity must be positive'']"
  by (simp add: cartItemSchema_errors_def cartItem_product_def cartItem_quantity_def
      required_def errorsOf_def joi_number_def integer_rule_def positive_rule_def field_def
      halves_def toNumber_def unsafe_def three_halves_not_integer unknownKeys_def)

theorem cart_payload_validation_witness:
  "field halves ''product'' = None
   \<and> badQuantity coerce0 halves
   \<and> addToCart cast0 coerce0 users0 categories0 shop 7 halves
       = (shop, BadRequest [''Product ID is required'', ''Quantity must be an integer'',
                            ''Quantity must be positive''])
   \<and> updateCart cast0 coerce0 shop 7 halves
       = (shop, BadRequest [''Product ID is required'', ''Quantity must be an integer'',
                            ''Quantity must be positive''])
   \<and> field [] ''quantity'' = None
   \<and> addToCart cast0 coerce0 users0 categories0 shop 7 []
       = (shop, BadRequest [''Product ID is required'', ''Quantity is required''])
   \<and> cartDocs emptyShop 7 = None
   \<and> run cast0 coerce0 users0 categories0 emptyShop shopRequests = shop
   \<and> cartDocs (fst (addToCart cast0 coerce0 users0 categories0 shop 7 (payload ''p1'' 3))) 7
       = Some [\<lparr>product = 11, quantity = 5\<rparr>, \<lparr>product = 12, quantity = 1\<rparr>]
   \<and> list_all positiveInteger [5, 1]
   \<and> cartDocs (fst (updateCart cast0 coerce0 shop 7 (payload ''p2'' 4))) 7
       = Some [\<lparr>product = 11, quantity = 2\<rparr>, \<lparr>product = 12, quantity = 4\<rparr>]
   \<and> list_all positiveInteger [2, 4]"
proof -
  have noproduct: "field halves ''product'' = None" by (simp add: field_def halves_def)
  have bad: "badQuantity coerce0 halves"
    by (simp add: badQuantity_def field_def halves_def toNumber_def positiveInteger_def)
  have noquantity: "field [] ''quantity'' = None" by (simp add: field_def)
  have empty_errors: "cartItemSchema_errors coerce0 []
      = [''Product ID is required'', ''Quantity is required'']"
    by (simp add: cartItemSchema_errors_def cartItem_product_def cartItem_quantity_def
        required_def errorsOf_def field_def unknownKeys_def)
  have start: "\<forall>v. cartDocs emptyShop v = None" by (simp add: emptyShop_def)
  have none: "cartDocs emptyShop 7 = None" by (simp add: emptyShop_def)
  from cart_payload_validation [of halves coerce0 cast0 users0 categories0 shop 7, THEN conjunct1]
    noproduct
  have r1: "addToCart cast0 coerce0 users0 categories0 shop 7 halves
       = (shop, BadRequest [''Product ID is required'', ''Quantity must be an integer'',
                            ''Quantity must be positive''])"
    and r2: "updateCart cast0 coerce0 shop 7 halves
       = (shop, BadRequest [''Product ID is required'', ''Quantity must be an integer'',
                            ''Quantity must be positive''])"
    by (simp_all add: halves_errors)
  from cart_payload_validation [of "[]" coerce0 cast0 users0 categories0 shop 7, THEN conjunct1]
    noquantity
  have r3: "addToCart cast0 coerce0 users0 categories0 shop 7 []
       = (shop, BadRequest [''Product ID is required'', ''Quantity is required''])"
    by (simp add: empty_errors badQuantity_def)
  have stored: "cartDocs (fst (addToCart cast0 coerce0 users0 categories0 shop 7 (payload ''p1'' 3))) 7
       = Some [\<lparr>product = 11, quantity = 5\<rparr>, \<lparr>product = 12, quantity = 1\<rparr>]"
    by (simp add: shop_merge cartDocs_save)
  have stored': "cartDocs (fst (updateCart cast0 coerce0 shop 7 (payload ''p2'' 4))) 7
       = Some [\<lparr>product = 11, quantity = 2\<rparr>, \<lparr>product = 12, quantity = 4\<rparr>]"
    by (simp add: shop_update cartDocs_save)
  from cart_payload_validation [where ?d0.0 = emptyShop and rs = shopRequests
      and cast = cast0 and coerce = coerce0 and users = users0 and categories = categories0
      and u = 7 and b = "payload ''p1'' 3", THEN conjunct2, THEN mp, OF start,
      unfolded shop_reached, THEN conjunct2, THEN conjunct1, THEN spec, THEN spec, THEN mp,
      OF shop_merge]
  have q1: "list_all positiveInteger [5, 1]"
    by (simp add: cartDocs_save)
  from cart_payload_validation [where ?d0.0 = emptyShop and rs = shopRequests
      and cast = cast0 and coerce = coerce0 and users = users0 and categories = categories0
      and u = 7 and b = "payload ''p2'' 4", THEN conjunct2, THEN mp, OF start,
      unfolded shop_reached, THEN conjunct2, THEN conjunct2, THEN spec, THEN spec, THEN mp,
      OF shop_update]
  have q2: "list_all positiveInteger [2, 4]"
    by simp
  show ?thesis
    using noproduct bad r1 r2 noquantity r3 none shop_reached stored q1 stored' q2
    by (intro conjI)
qed

section \<open>Products of a category\<close>

text \<open>
  C8. For a category id, \<open>getProductsByCategory\<close> answers 200 with exactly the products
  whose category reference is that id, in the order of the collection, and with their
  number as the count; with no such product the answer is the empty sequence and the
  count 0. The handler never answers its 404: the condition of that branch is an array,
  which is always truthy.
\<close>

theorem getProductsByCategory_success:
  "(\<forall>m. getProductsByCategory cast d s \<noteq> NotFound m)
   \<and> (\<forall>c. cast s = Some c \<longrightarrow>
          getProductsByCategory cast d s
            = Ok \<lparr>count = length [p\<leftarrow>productDocs d. category p = c],
                  products = [p\<leftarrow>productDocs d. category p = c]\<rparr>)
   \<and> (\<forall>c. cast s = Some c \<and> (\<forall>p\<in>set (productDocs d). category p \<noteq> c) \<longrightarrow>
          getProductsByCategory cast d s = Ok \<lparr>count = 0, products = []\<rparr>)"
  by (auto simp: getProductsByCategory_def truthy_def Let_def filter_empty_conv
      split: option.splits)

theorem getProductsByCategory_success_witness:
  "cast0 ''c20'' = Some 20
   \<and> getProductsByCategory cast0 shop ''c20'' = Ok \<lparr>count = 1, products = [shoe]\<rparr>
   \<and> cast0 ''p3'' = Some 13
   \<and> getProductsByCategory cast0 shop ''p3'' = Ok \<lparr>count = 0, products = []\<rparr>"
proof -
  have c: "[p\<leftarrow>productDocs shop. category p = 20] = [shoe]"
    and e: "[p\<leftarrow>productDocs shop. category p = 13] = []"
    by (simp_all add: shop_def shoe_def hat_def)
  from getProductsByCategory_success [of cast0 shop "''c20''", THEN conjunct2, THEN conjunct1,
      THEN spec, of 20] cast0_values(6)
  have r1: "getProductsByCategory cast0 shop ''c20'' = Ok \<lparr>count = 1, products = [shoe]\<rparr>"
    by (simp add: c)
  from getProductsByCategory_success [of cast0 shop "''p3''", THEN conjunct2, THEN conjunct1,
      THEN spec, of 13] cast0_values(3)
  have r2: "getProductsByCategory cast0 shop ''p3'' = Ok \<lparr>count = 0, products = []\<rparr>"
    by (simp add: e)
  show ?thesis using cast0_values(6) r1 cast0_values(3) r2 by (intro conjI)
qed

section \<open>Validation of the product payload\<close>

lemma quoted_not_required: "quoted k @ r \<notin> snd ` set requiredProductFields"
  by (simp add: requiredProductFields_def quoted_def)

lemma required_string_part:
  "filter (\<lambda>m. m \<in> snd ` set requiredProductFields) (errorsOf (product_string key msg b))
     = (if field b key = None \<and> msg \<in> snd ` set requiredProductFields then [msg] else [])"
  using quoted_not_required
  by (auto simp: product_string_def required_def joi_string_def errorsOf_def
      split: option.splits jvalue.splits)

lemma required_number_part:
  "filter (\<lambda>m. m \<in> snd ` set requiredProductFields) (errorsOf (product_number coerce key msg b))
     = (if field b key = None \<and> msg \<in> snd ` set requiredProductFields then [msg] else [])"
  using quoted_not_required
  by (auto simp: product_number_def required_def joi_number_def errorsOf_def
      split: option.splits)

lemma optional_part:
  "filter (\<lambda>m. m \<in> snd ` set requiredProductFields) (errorsOf (product_optional key b)) = []"
  using quoted_not_required
  by (auto simp: product_optional_def optional_def joi_string_def errorsOf_def
      split: option.splits jvalue.splits)

lemma unknown_part:
  "filter (\<lambda>m. m \<in> snd ` set requiredProductFields) (unknownKeys known b) = []"
  using quoted_not_required by (auto simp: unknownKeys_def filter_empty_conv)

lemma required_messages_of_errors:
  "filter (\<lambda>m. m \<in> snd ` set requiredProductFields) (productSchema_errors coerce b)
     = missingMessages b"
  unfolding productSchema_errors_def filter_append required_string_part required_number_part
    optional_part unknown_part
  by (simp add: missingMessages_def requiredProductFields_def)

lemma product_rejected:
  "productSchema_errors coerce b \<noteq> []
     \<Longrightarrow> productSchema_validate coerce b = Inl (productSchema_errors coerce b)"
  by (simp add: productSchema_validate_def split: sum.splits)

text \<open>
  C6. A payload that lacks one or more of the required fields of a product is refused by
  \<open>createProduct\<close> and by \<open>updateProduct\<close> with the 400 that lists all messages of the
  contract, and the store is returned as it was. Among the messages of that list, those of
  a missing required field are exactly the messages of the fields the payload lacks, each
  once, in the order of the schema.
\<close>

theorem product_validation_reports_missing_fields:
  assumes "missingMessages b \<noteq> []"
  shows "createProduct cast coerce d fresh b = (d, BadRequest (productSchema_errors coerce b))
       \<and> updateProduct cast coerce d productId b = (d, BadRequest (productSchema_errors coerce b))
       \<and> filter (\<lambda>m. m \<in> snd ` set requiredProductFields) (productSchema_errors coerce b)
           = missingMessages b
       \<and> set (missingMessages b) \<subseteq> set (productSchema_errors coerce b)
       \<and> distinct (missingMessages b)"
proof -
  note req = required_messages_of_errors [of coerce b]
  from assms req have "productSchema_errors coerce b \<noteq> []" by auto
  then have rejected: "productSchema_validate coerce b = Inl (productSchema_errors coerce b)"
    by (rule product_rejected)
  have sub: "set (missingMessages b) \<subseteq> set (productSchema_errors coerce b)"
    unfolding req [symmetric] by auto
  have dist: "distinct (missingMessages b)"
    by (simp add: missingMessages_def requiredProductFields_def)
  from rejected req sub dist show ?thesis
    by (simp add: createProduct_def updateProduct_def)
qed

lemma noPrice_errors:
  "productSchema_errors coerce0 noPrice
     = [quoted ''name'' @ '' is not allowed to be empty'', ''Price is required'',
        ''Stock is required'']"
  by (simp add: productSchema_errors_def product_string_def product_number_def
      product_optional_def required_def optional_def joi_string_def errorsOf_def field_def
      noPrice_def unknownKeys_def productKeys_def)

theorem product_validation_reports_missing_fields_witness:
  "missingMessages noPrice = [''Price is required'', ''Stock is required'']
   \<and> createProduct cast0 coerce0 shop 14 noPrice
       = (shop, BadRequest [quoted ''name'' @ '' is not allowed to be empty'',
                            ''Price is required'', ''Stock is required''])
   \<and> updateProduct cast0 coerce0 shop ''p1'' noPrice
       = (shop, BadRequest [quoted ''name'' @ '' is not allowed to be empty'',
                            ''Price is required'', ''Stock is required''])"
proof -
  have m: "missingMessages noPrice = [''Price is required'', ''Stock is required'']"
    by (simp add: missingMessages_def requiredProductFields_def field_def noPrice_def)
  then have ne: "missingMessages noPrice \<noteq> []" by simp
  from product_validation_reports_missing_fields [OF ne, of cast0 coerce0 shop 14 "''p1''"]
  have "createProduct cast0 coerce0 shop 14 noPrice
       = (shop, BadRequest [quoted ''name'' @ '' is not allowed to be empty'',
                            ''Price is required'', ''Stock is required''])"
    and "updateProduct cast0 coerce0 shop ''p1'' noPrice
       = (shop, BadRequest [quoted ''name'' @ '' is not allowed to be empty'',
                            ''Price is required'', ''Stock is required''])"
    by (simp_all add: noPrice_errors)
  with m show ?thesis by (intro conjI)
qed

section \<open>The search by name\<close>

lemma parseRegex_literal:
  "\<forall>c\<in>set t. c \<notin> set metachars \<Longrightarrow> parseRegex t = Some (map Lit t)"
  by (induction t) (auto simp: metachars_def)

lemma matchPrefix_literal:
  "matchPrefix (map Lit t) s \<longleftrightarrow> prefix (map lower t) (map lower s)"
proof (induction t arbitrary: s)
  case Nil
  then show ?case by simp
next
  case (Cons c t)
  then show ?case by (cases s) auto
qed

lemma matchAnywhere_literal:
  "matchAnywhere (map Lit t) s \<longleftrightarrow> sublist (map lower t) (map lower s)"
proof (induction s)
  case Nil
  then show ?case by (cases t) simp_all
next
  case (Cons x s)
  have "matchAnywhere (map Lit t) (x # s)
      \<longleftrightarrow> prefix (map lower t) (map lower (x # s)) \<or> sublist (map lower t) (map lower s)"
    using Cons.IH by (simp only: matchAnywhere.simps matchPrefix_literal)
  then show ?case by (simp add: sublist_Cons_right)
qed

lemma regexCompile_literal:
  "\<forall>c\<in>set t. c \<notin> set metachars \<Longrightarrow>
     regexCompile engine t = Some (\<lambda>s. containsIgnoringCase t s)"
  by (simp add: regexCompile_def parseRegex_literal containsIgnoringCase_def
      matchAnywhere_literal [abs_def])

text \<open>
  C7, as amended. Without a search term, and with the empty one, \<open>getProducts\<close> answers
  with the whole collection. With a term that is not empty and has none of the characters
  that a regular expression reads as an operator, it answers with exactly the products
  whose name contains the term as a substring, letter case ignored, in the order of the
  collection. In every 200 the count is the length of the sequence.
\<close>

theorem getProducts_literal_search:
  "getProducts engine d None = Ok \<lparr>count = length (productDocs d), products = productDocs d\<rparr>
   \<and> getProducts engine d (Some []) = Ok \<lparr>count = length (productDocs d), products = productDocs d\<rparr>
   \<and> (term \<noteq> [] \<and> (\<forall>c\<in>set term. c \<notin> set metachars) \<longrightarrow>
        getProducts engine d (Some term)
          = Ok \<lparr>count = length [p\<leftarrow>productDocs d. containsIgnoringCase term (name p)],
                products = [p\<leftarrow>productDocs d. containsIgnoringCase term (name p)]\<rparr>)
   \<and> (\<forall>r. getProducts engine d search = Ok r \<longrightarrow> count r = length (products r))"
proof (intro conjI impI allI)
  show "getProducts engine d None = Ok \<lparr>count = length (productDocs d), products = productDocs d\<rparr>"
    and "getProducts engine d (Some []) = Ok \<lparr>count = length (productDocs d), products = productDocs d\<rparr>"
    by (simp_all add: getProducts_def)
next
  assume "term \<noteq> [] \<and> (\<forall>c\<in>set term. c \<notin> set metachars)"
  then show "getProducts engine d (Some term)
          = Ok \<lparr>count = length [p\<leftarrow>productDocs d. containsIgnoringCase term (name p)],
                products = [p\<leftarrow>productDocs d. containsIgnoringCase term (name p)]\<rparr>"
    by (simp add: getProducts_def regexCompile_literal)
next
  fix r assume "getProducts engine d search = Ok r"
  then show "count r = length (products r)"
    by (auto simp: getProducts_def split: option.splits if_splits)
qed

lemma lower_Sh: "map lower ''Sh'' = ''sh''" "map lower ''Shoe'' = ''shoe''"
  "map lower ''Hat'' = ''hat''" "map lower ''.'' = ''.''"
  by (simp_all add: lower_def)

lemma contains_Sh: "containsIgnoringCase ''Sh'' ''Shoe''" "\<not> containsIgnoringCase ''Sh'' ''Hat''"
  "\<not> containsIgnoringCase ''.'' ''Shoe''" "\<not> containsIgnoringCase ''.'' ''Hat''"
  unfolding containsIgnoringCase_def lower_Sh by code_simp+

theorem getProducts_literal_search_witness:
  "''Sh'' \<noteq> [] \<and> CHR ''S'' \<notin> set metachars \<and> CHR ''h'' \<notin> set metachars
   \<and> getProducts engine0 shop (Some ''Sh'') = Ok \<lparr>count = 1, products = [shoe]\<rparr>
   \<and> containsIgnoringCase ''Sh'' (name shoe)
   \<and> \<not> containsIgnoringCase ''Sh'' (name hat)
   \<and> getProducts engine0 shop None = Ok \<lparr>count = 2, products = [shoe, hat]\<rparr>"
proof -
  have lit: "''Sh'' \<noteq> [] \<and> (\<forall>c\<in>set ''Sh''. c \<notin> set metachars)"
    by (simp add: metachars_def)
  have names: "name shoe = ''Shoe''" "name hat = ''Hat''" by (simp_all add: shoe_def hat_def)
  have docs: "productDocs shop = [shoe, hat]" by (simp add: shop_def)
  from getProducts_literal_search [of engine0 shop "''Sh''"] lit
  have r1: "getProducts engine0 shop (Some ''Sh'') = Ok \<lparr>count = 1, products = [shoe]\<rparr>"
    by (simp add: docs names contains_Sh)
  from getProducts_literal_search [of engine0 shop "''Sh''"]
  have r2: "getProducts engine0 shop None = Ok \<lparr>count = 2, products = [shoe, hat]\<rparr>"
    by (simp add: docs)
  from lit have "CHR ''S'' \<notin> set metachars" "CHR ''h'' \<notin> set metachars" "''Sh'' \<noteq> []"
    by simp_all
  with r1 r2 contains_Sh(1,2) names show ?thesis by simp
qed

text \<open>
  C7, as stated, fails on a term that a regular expression reads otherwise: the term
  \<open>.\<close> matches every name that is not empty, though no name of the shop contains a dot.
\<close>

theorem getProducts_regex_counterexample:
  "getProducts engine0 shop (Some ''.'') = Ok \<lparr>count = 2, products = [shoe, hat]\<rparr>
   \<and> \<not> containsIgnoringCase ''.'' (name shoe)
   \<and> \<not> containsIgnoringCase ''.'' (name hat)"
  by (simp add: getProducts_def regexCompile_def shop_def shoe_def hat_def contains_Sh)

section \<open>The exported handlers\<close>

text \<open>
  After the second assignment to \<open>module.exports\<close> the module exports the four handlers
  of the user's own cart, and \<open>updateCartForUser\<close> is not among them.
\<close>

lemma updateCartForUser_not_exported:
  "''updateCartForUser'' \<notin> set module_exports \<and> ''updateCart'' \<in> set module_exports"
  by (simp add: module_exports_def)

end
